theory Spec2Isabelle
  imports Complex_Main "HOL-Library.Sublist" "HOL-Library.AList"
begin

section \<open>Datasets, physics processes and their histogram queries\<close>

text \<open>
  A shallow embedding of \<^verbatim>\<open>plotting/Dataset.py\<close>: the classes \<^verbatim>\<open>Dataset\<close> and
  \<^verbatim>\<open>PhysicsProcess\<close>, their cut and variable resolution, the histogram query with its
  histogram store, the yield, the value query and \<^verbatim>\<open>Dataset.copy\<close>.

  Python floats are idealised as real numbers. ROOT (trees, histograms) and the modules
  \<^verbatim>\<open>plotting.Cut\<close>, \<^verbatim>\<open>plotting.Systematics\<close>, \<^verbatim>\<open>plotting.Variable\<close>, \<^verbatim>\<open>plotting.Tools\<close>,
  \<^verbatim>\<open>plotting.TreePlot\<close> and \<^verbatim>\<open>plotting.HistogramStore\<close> are imported by the file and are
  not part of it: what the file calls in them is a field of the environment record
  \<open>Env\<close>, except for the cut algebra, the histogram store and the arithmetic of ROOT
  histograms, which are defined below. Titles, styles and draw options only decorate a
  histogram and are left out; of the debug log lines only what formatting them evaluates
  is kept (the property \<^verbatim>\<open>sumOfWeights\<close> in \<^verbatim>\<open>_open\<close>, which can raise).
\<close>

subsection \<open>Cuts\<close>

text \<open>
  Modelled from the spec: the class \<^verbatim>\<open>Cut\<close> of \<^verbatim>\<open>plotting/Cut.py\<close> is missing. A cut has
  an expression (read by the file as \<^verbatim>\<open>.cut\<close>) and a title. Combining two cuts gives the
  conjunction of the expressions and the space-joined titles, an empty operand being the
  identity. Removing a cut is textual: the conjuncts equal to the removed expression are
  dropped, and a cut that was never conjoined leaves the expression as it is.
  Multiplying by a weight gives \<^verbatim>\<open>(expr) * (weight)\<close>.
\<close>

record Cut =
  cut :: string
  cut_title :: string

definition Cut0 :: Cut where
  "Cut0 = \<lparr>cut = [], cut_title = []\<rparr>"

definition join_with :: "string \<Rightarrow> string \<Rightarrow> string \<Rightarrow> string" where
  "join_with sep a b = (if a = [] then b else if b = [] then a else a @ sep @ b)"

definition cut_add :: "Cut \<Rightarrow> Cut \<Rightarrow> Cut" where
  "cut_add a b =
     \<lparr>cut = join_with '' && '' (cut a) (cut b),
      cut_title = join_with '' '' (cut_title a) (cut_title b)\<rparr>"

fun conjuncts_of :: "string \<Rightarrow> string list" where
  "conjuncts_of [] = [[]]"
| "conjuncts_of (x # xs) =
     (if take 4 (x # xs) = '' && '' then [] # conjuncts_of (drop 3 xs)
      else (case conjuncts_of xs of [] \<Rightarrow> [[x]] | w # ws \<Rightarrow> (x # w) # ws))"

fun join_conjuncts :: "string list \<Rightarrow> string" where
  "join_conjuncts [] = []"
| "join_conjuncts [w] = w"
| "join_conjuncts (w # ws) = w @ '' && '' @ join_conjuncts ws"

definition withoutCut :: "Cut \<Rightarrow> Cut \<Rightarrow> Cut" where
  "withoutCut a sub =
     (if cut sub = [] then a
      else a\<lparr>cut := join_conjuncts (removeAll (cut sub) (conjuncts_of (cut a)))\<rparr>)"

definition weight_mul :: "string \<Rightarrow> string \<Rightarrow> string" where
  "weight_mul a b =
     (if a = [] then b else if b = [] then a else ''('' @ a @ '') * ('' @ b @ '')'')"

definition cut_mul :: "Cut \<Rightarrow> string \<Rightarrow> Cut" where
  "cut_mul a w = a\<lparr>cut := weight_mul (cut a) w\<rparr>"

subsection \<open>Systematic variations, trees and histograms\<close>

type_synonym Variable = string

text \<open>
  A systematic variation as the file reads it: the tree it is read from, the name of the
  systematics it belongs to (\<open>None\<close> for a nominal variation) and whether it is a shape
  variation. A systematics set is the set of the names of its members.
\<close>

record SystematicVariation =
  variationName :: string
  treeName :: string
  systematics :: "string option"
  isShapeSystematics :: bool

text \<open>
  A \<^verbatim>\<open>TChain\<close>: its name, the files added to it and the selection of its entry list
  (empty when no entry list is set).
\<close>

record Tree =
  chainName :: string
  chainFiles :: "string list"
  entryList :: string

text \<open>
  A one-dimensional ROOT histogram: the bin contents with the underflow bin first and the
  overflow bin last, the sum of squared weights of each bin and the number of entries.
  \<open>TH1_Scale\<close>, \<open>TH1_Add\<close>, \<open>TH1_Integral\<close> and \<open>TH1_IntegralAndError\<close> are ROOT's
  \<^verbatim>\<open>Scale\<close>, \<^verbatim>\<open>Add\<close>, \<^verbatim>\<open>Integral(0, GetNbinsX()+1)\<close> and
  \<^verbatim>\<open>IntegralAndError(0, GetNbinsX()+2, error)\<close> (ROOT clamps the last bin to the overflow
  bin). \<^verbatim>\<open>Add\<close> refuses a histogram with another number of bins.
\<close>

record Histogram =
  contents :: "real list"
  sumw2 :: "real list"
  entries :: real

definition TH1_Scale :: "real \<Rightarrow> Histogram \<Rightarrow> Histogram" where
  "TH1_Scale c h =
     h\<lparr>contents := map (\<lambda>x. c * x) (contents h), sumw2 := map (\<lambda>x. c * c * x) (sumw2 h)\<rparr>"

definition TH1_Add :: "Histogram \<Rightarrow> Histogram \<Rightarrow> Histogram" where
  "TH1_Add h g =
     (if length (contents g) = length (contents h) \<and> length (sumw2 g) = length (sumw2 h)
      then \<lparr>contents = map2 (+) (contents h) (contents g),
            sumw2 = map2 (+) (sumw2 h) (sumw2 g),
            entries = entries h + entries g\<rparr>
      else h)"

definition TH1_Integral :: "Histogram \<Rightarrow> real" where
  "TH1_Integral h = sum_list (contents h)"

definition TH1_IntegralAndError :: "Histogram \<Rightarrow> real \<times> real" where
  "TH1_IntegralAndError h = (sum_list (contents h), sqrt (sum_list (sumw2 h)))"

subsection \<open>The dataset\<close>

text \<open>
  The attributes of a \<^verbatim>\<open>Dataset\<close> that the queries read. \<open>sumOfWeights_attr\<close> is the
  attribute behind the property \<^verbatim>\<open>sumOfWeights\<close> (zero: not set), \<open>histogramStore\<close> is
  the identity of the store the dataset uses, if any. \<^verbatim>\<open>keepTreesInMemory\<close> is false in
  every dataset the file builds, so \<^verbatim>\<open>openTrees\<close> stays empty; it is left out here, and
  with it \<^verbatim>\<open>_close\<close>, the friend trees and the memory of entry lists.
\<close>

record Dataset =
  name :: string
  title :: string
  fileNames :: "string list"
  weightExpression :: string
  sumOfWeights_attr :: real
  scaleFactors :: "(string \<times> real) list"
  isData :: bool
  ignoreCuts :: "Cut list"
  addCuts :: "Cut list"
  replaceVariables :: "(Variable \<times> Variable) list"
  histogramStore :: "nat option"
  systematicsSet :: "string set"
  nominalSystematics :: SystematicVariation
  preselection :: Cut

text \<open>\<^verbatim>\<open>Dataset.__init__\<close>; the setters of \<^verbatim>\<open>crossSection\<close> and \<^verbatim>\<open>kFactor\<close> write the scale factors.\<close>

definition Dataset_init ::
  "string \<Rightarrow> string \<Rightarrow> string list \<Rightarrow> string \<Rightarrow> string \<Rightarrow> real \<Rightarrow> real \<Rightarrow> bool \<Rightarrow> Dataset" where
  "Dataset_init nm ttl files tree_name weight crossSection kFactor is_data =
     \<lparr>name = nm,
      title = (if ttl = [] then nm else ttl),
      fileNames = files,
      weightExpression = weight,
      sumOfWeights_attr = 0,
      scaleFactors = AList.update ''kFactor'' kFactor (AList.update ''crossSection'' crossSection []),
      isData = is_data,
      ignoreCuts = [],
      addCuts = [],
      replaceVariables = [],
      histogramStore = None,
      systematicsSet = {},
      nominalSystematics =
        \<lparr>variationName = ''nominal'', treeName = tree_name, systematics = None,
         isShapeSystematics = False\<rparr>,
      preselection = Cut0\<rparr>"

text \<open>\<^verbatim>\<open>Dataset._determineVariable\<close>\<close>

definition determineVariable :: "Dataset \<Rightarrow> Variable \<Rightarrow> Variable" where
  "determineVariable ds v = (case map_of (replaceVariables ds) v of Some v' \<Rightarrow> v' | None \<Rightarrow> v)"

text \<open>
  \<^verbatim>\<open>Dataset._determineCut\<close>: the empty cut plus the given cut, then the loop over
  \<^verbatim>\<open>ignoreCuts\<close>, then the loop over \<^verbatim>\<open>addCuts\<close>.
\<close>

definition determineCut :: "Dataset \<Rightarrow> Cut \<Rightarrow> Cut" where
  "determineCut ds c =
     foldl cut_add (foldl withoutCut (cut_add Cut0 c) (ignoreCuts ds)) (addCuts ds)"

text \<open>
  The resolution of a cut in the words of the specification: the preselection, the user's
  cut and the injected cuts are combined, and the excluded cuts are removed afterwards.
\<close>

definition resolveCut_spec :: "Dataset \<Rightarrow> Cut \<Rightarrow> Cut" where
  "resolveCut_spec ds c =
     foldl withoutCut (foldl cut_add (cut_add (preselection ds) c) (addCuts ds)) (ignoreCuts ds)"

text \<open>
  \<^verbatim>\<open>Dataset.combinedScaleFactors\<close>: the product of the values of the dictionary.
\<close>

definition combinedScaleFactors :: "Dataset \<Rightarrow> real" where
  "combinedScaleFactors ds = prod_list (map snd (scaleFactors ds))"

subsection \<open>The environment and the state\<close>

text \<open>The exceptions of Python that the modelled methods can raise.\<close>

datatype error = AttributeError | ValueError | UnboundLocalError

text \<open>
  What \<^verbatim>\<open>TFile.Open\<close> gives: nothing (\<^verbatim>\<open>None\<close>, which tests false and has no method
  \<^verbatim>\<open>Close\<close>), a file object that is not open, or an open file, which gives for the name of
  a histogram its bin contents, or nothing when it holds no such histogram.
\<close>

datatype RootFile = NullFile | ClosedFile | OpenFile "string \<Rightarrow> (nat \<Rightarrow> real) option"

text \<open>
  What the file calls outside itself.
  \<^item> \<open>TChain tn files\<close>: the chain named \<open>tn\<close> after \<^verbatim>\<open>findAllFilesInPath\<close> and
    \<^verbatim>\<open>TChain.Add\<close> ran over the file name patterns, with the files that were added.
  \<^item> \<open>tree_nonzero\<close>: the truth value Python gives a chain object, the negation of
    \<^verbatim>\<open>not tree\<close>.
  \<^item> \<open>createHistogramFromTree\<close>: \<^verbatim>\<open>Variable.createHistogramFromTree\<close>, the tree draw
    that fills a histogram; \<open>None\<close> is a null histogram.
  \<^item> \<open>getValuesFromTree\<close>: \<^verbatim>\<open>plotting.TreePlot.getValuesFromTree\<close>.
  \<^item> \<open>totalWeight\<close>, \<open>totalScaleFactor\<close>: the methods of \<^verbatim>\<open>SystematicsSet\<close>.
  \<^item> \<open>Tools_forceBinning\<close>, \<open>overflowIntoLastBins\<close>: \<^verbatim>\<open>plotting.Tools\<close>.
  \<^item> \<open>applyBlinding\<close>: \<^verbatim>\<open>Variable.applyBlinding\<close>, which changes the histogram in place
    and returns nothing.
  \<^item> \<open>findAllFilesInPath\<close>: the files a file name pattern stands for (the function of
    that name walks the directories through ROOT).
  \<^item> \<open>TFile_Open\<close>: what \<^verbatim>\<open>TFile.Open\<close> gives for a file name, see \<open>RootFile\<close>.
  \<^item> \<open>var_Yield\<close>: the variable \<^verbatim>\<open>plotting.Variable.var_Yield\<close>.
\<close>

record Env =
  TChain :: "string \<Rightarrow> string list \<Rightarrow> Tree"
  tree_nonzero :: "Tree \<Rightarrow> bool"
  createHistogramFromTree :: "Variable \<Rightarrow> Tree \<Rightarrow> Cut \<Rightarrow> string \<Rightarrow> Histogram option"
  getValuesFromTree :: "Tree \<Rightarrow> Variable \<Rightarrow> string \<Rightarrow> real list \<times> real list"
  totalWeight :: "string set \<Rightarrow> SystematicVariation \<Rightarrow> Cut option \<Rightarrow> Cut"
  totalScaleFactor :: "string set \<Rightarrow> SystematicVariation \<Rightarrow> Cut \<Rightarrow> real"
  Tools_forceBinning :: "Histogram \<Rightarrow> Variable \<Rightarrow> Histogram"
  overflowIntoLastBins :: "Histogram \<Rightarrow> Histogram"
  applyBlinding :: "Variable \<Rightarrow> Cut \<Rightarrow> Histogram \<Rightarrow> Histogram"
  findAllFilesInPath :: "string \<Rightarrow> string list"
  TFile_Open :: "string \<Rightarrow> RootFile"
  var_Yield :: Variable

text \<open>
  Modelled from the spec: the class \<^verbatim>\<open>HistogramStore\<close> of \<^verbatim>\<open>plotting/HistogramStore.py\<close>
  is missing. A store maps a key (sample name, identity of the variation, variable, cut
  expression) to the histogram stored under it; a stored histogram is retrieved with the
  content it was stored with, and storing overwrites. The file also hands a null
  histogram to \<^verbatim>\<open>putHistogram\<close>; storing nothing is taken to leave the store as it is.
\<close>

type_synonym Key = "string \<times> string \<times> Variable \<times> string"

type_synonym HistogramStore = "Key \<Rightarrow> Histogram option"

definition storeKey :: "Dataset \<Rightarrow> SystematicVariation \<Rightarrow> Variable \<Rightarrow> Cut \<Rightarrow> Key" where
  "storeKey ds sv xv c = (name ds, variationName sv, xv, cut c)"

definition store_getHistogram ::
  "HistogramStore \<Rightarrow> Dataset \<Rightarrow> SystematicVariation \<Rightarrow> Variable \<Rightarrow> Cut \<Rightarrow> Histogram option" where
  "store_getHistogram st ds sv xv c = st (storeKey ds sv xv c)"

definition store_putHistogram ::
  "HistogramStore \<Rightarrow> Dataset \<Rightarrow> SystematicVariation \<Rightarrow> Variable \<Rightarrow> Cut \<Rightarrow> Histogram option
     \<Rightarrow> HistogramStore" where
  "store_putHistogram st ds sv xv c hist =
     (case hist of None \<Rightarrow> st | Some h \<Rightarrow> st(storeKey ds sv xv c := Some h))"

text \<open>
  The state the queries change: the histogram stores by their identity, the number of
  calls of \<^verbatim>\<open>createHistogramFromTree\<close> made so far and the number of warnings logged.
\<close>

record World =
  stores :: "nat \<Rightarrow> HistogramStore"
  draws :: nat
  warnings :: nat

subsection \<open>The sum of weights and opening the tree\<close>

text \<open>
  \<^verbatim>\<open>getDatasetHistogramBinContent\<close> (lines 80 to 97): the loop over the files of a
  dataset. The local variable \<^verbatim>\<open>h\<close> is bound only when a file is open, and read for every
  file: for a file that is not open it is the histogram of the file before, and Python
  raises \<^verbatim>\<open>UnboundLocalError\<close> when there was none. \<^verbatim>\<open>rootFile.Close()\<close> is called for
  every file and raises \<^verbatim>\<open>AttributeError\<close> on \<^verbatim>\<open>None\<close>.
\<close>

datatype Binding = Unbound | Bound "(nat \<Rightarrow> real) option"

definition addBinContent :: "(nat \<Rightarrow> real) option \<Rightarrow> nat \<Rightarrow> real \<Rightarrow> real" where
  "addBinContent h binIndex result =
     (case h of None \<Rightarrow> result | Some bins \<Rightarrow> result + bins binIndex)"

fun binContentLoop ::
  "Env \<Rightarrow> string \<Rightarrow> nat \<Rightarrow> string list \<Rightarrow> Binding \<Rightarrow> real \<Rightarrow> error + real" where
  "binContentLoop env histogramName binIndex [] h result = Inr result"
| "binContentLoop env histogramName binIndex (fileName # files) h result =
     (case TFile_Open env fileName of
        OpenFile get \<Rightarrow>
          binContentLoop env histogramName binIndex files (Bound (get histogramName))
            (addBinContent (get histogramName) binIndex result)
      | ClosedFile \<Rightarrow>
          (case h of
             Unbound \<Rightarrow> Inl UnboundLocalError
           | Bound b \<Rightarrow>
               binContentLoop env histogramName binIndex files h
                 (addBinContent b binIndex result))
      | NullFile \<Rightarrow>
          (case h of
             Unbound \<Rightarrow> Inl UnboundLocalError
           | Bound b \<Rightarrow> Inl AttributeError))"

definition getDatasetHistogramBinContent ::
  "Env \<Rightarrow> Dataset \<Rightarrow> string \<Rightarrow> nat \<Rightarrow> error + real" where
  "getDatasetHistogramBinContent env ds histogramName binIndex =
     binContentLoop env histogramName binIndex
       (concat (map (findAllFilesInPath env) (fileNames ds))) Unbound 0"

text \<open>
  \<^verbatim>\<open>HistogramBasedSumOfWeightsCalculator('h_metadata', 8).calculate\<close>: the flag
  \<^verbatim>\<open>calculated\<close> is never set, so the files are read at every call; a sum below
  \<^verbatim>\<open>1e-09\<close> in absolute value is taken as zero.
\<close>

definition calculate :: "Env \<Rightarrow> Dataset \<Rightarrow> error + real" where
  "calculate env ds =
     (case getDatasetHistogramBinContent env ds ''h_metadata'' 8 of
        Inl e \<Rightarrow> Inl e
      | Inr s \<Rightarrow> Inr (if \<bar>s\<bar> < 1 / 10 ^ 9 then 0 else s))"

text \<open>
  The property \<^verbatim>\<open>Dataset.sumOfWeights\<close>: the attribute when it is set (not zero), else
  what the calculator gives.
\<close>

definition sumOfWeights :: "Env \<Rightarrow> Dataset \<Rightarrow> error + real" where
  "sumOfWeights env ds =
     (if sumOfWeights_attr ds = 0 then calculate env ds else Inr (sumOfWeights_attr ds))"

text \<open>
  \<^verbatim>\<open>Dataset._applyPreselectionToTree\<close>: an entry list a tree had is removed, and a
  non-empty preselection sets the entry list of its selection.
\<close>

definition applyPreselectionToTree :: "Dataset \<Rightarrow> Tree \<Rightarrow> Tree" where
  "applyPreselectionToTree ds tree = tree\<lparr>entryList := cut (preselection ds)\<rparr>"

text \<open>
  \<^verbatim>\<open>Dataset._open\<close>: the chain of the tree name (the nominal tree when no name is given)
  over the files of the dataset. With files the preselection is applied and the debug
  line is formatted, which reads the property \<^verbatim>\<open>sumOfWeights\<close> at every log level, so an
  exception of that property leaves \<^verbatim>\<open>_open\<close>; with no file a warning is logged. The chain
  is returned in both cases.
\<close>

definition open_tree :: "Env \<Rightarrow> Dataset \<Rightarrow> string \<Rightarrow> World \<Rightarrow> (error + Tree) \<times> World" where
  "open_tree env ds tn w =
     (let tn' = (if tn = [] then treeName (nominalSystematics ds) else tn);
          tree = TChain env tn' (fileNames ds)
      in if chainFiles tree = [] then (Inr tree, w\<lparr>warnings := warnings w + 1\<rparr>)
         else (case sumOfWeights env ds of
                 Inl e \<Rightarrow> (Inl e, w)
               | Inr s \<Rightarrow> (Inr (applyPreselectionToTree ds tree), w)))"

subsection \<open>The histogram query of a dataset\<close>

text \<open>
  The arguments of \<^verbatim>\<open>getHistogram\<close> (without title, draw option and style). No cut
  (\<^verbatim>\<open>None\<close>) is the empty cut, no weight expression the empty string.
\<close>

record HistArgs =
  xVar :: Variable
  cut_arg :: Cut
  weightExpression_arg :: string
  luminosity :: real
  recreate :: bool
  systematicVariation :: "SystematicVariation option"
  includeOverflowBins :: bool
  ignoreDataWeight :: bool
  systematicsSet_arg :: "string set option"
  forceBinning :: bool

text \<open>
  \<^verbatim>\<open>self.systematicsSet.union( systematicsSet ) if systematicsSet else self.systematicsSet\<close>
\<close>

definition effectiveSystematicsSet :: "Dataset \<Rightarrow> string set option \<Rightarrow> string set" where
  "effectiveSystematicsSet ds s =
     (case s of
        None \<Rightarrow> systematicsSet ds
      | Some s' \<Rightarrow> if s' = {} then systematicsSet ds else systematicsSet ds \<union> s')"

text \<open>
  Lines 845 to 849 of \<^verbatim>\<open>getHistogram\<close>: the variation given or the nominal one, replaced
  by the nominal one when it has no systematics or its systematics is not in the set.
\<close>

definition resolveVariation ::
  "Dataset \<Rightarrow> SystematicVariation option \<Rightarrow> string set \<Rightarrow> SystematicVariation" where
  "resolveVariation ds v sset =
     (let sv = (case v of None \<Rightarrow> nominalSystematics ds | Some x \<Rightarrow> x) in
      case systematics sv of
        None \<Rightarrow> nominalSystematics ds
      | Some s \<Rightarrow> if s \<in> sset then sv else nominalSystematics ds)"

text \<open>
  The values \<^verbatim>\<open>getHistogram\<close> binds before it turns to the store, each as a function of
  the dataset and the arguments: the weight expression (lines 838 to 840), the cut (842),
  the variable (843), the systematics set (846), the variation (845 to 849) and the
  variation the store is asked with (854).
\<close>

definition queryWeight :: "Dataset \<Rightarrow> HistArgs \<Rightarrow> string" where
  "queryWeight ds a =
     (if ignoreDataWeight a \<and> isData ds then weightExpression ds
      else if weightExpression_arg a = [] then weightExpression ds
      else weightExpression_arg a)"

definition queryCut :: "Dataset \<Rightarrow> HistArgs \<Rightarrow> Cut" where
  "queryCut ds a = determineCut ds (cut_arg a)"

definition queryVariable :: "Dataset \<Rightarrow> HistArgs \<Rightarrow> Variable" where
  "queryVariable ds a = determineVariable ds (xVar a)"

definition querySystematicsSet :: "Dataset \<Rightarrow> HistArgs \<Rightarrow> string set" where
  "querySystematicsSet ds a = effectiveSystematicsSet ds (systematicsSet_arg a)"

definition queryVariation :: "Dataset \<Rightarrow> HistArgs \<Rightarrow> SystematicVariation" where
  "queryVariation ds a =
     resolveVariation ds (systematicVariation a) (querySystematicsSet ds a)"

definition storeVariation :: "Dataset \<Rightarrow> HistArgs \<Rightarrow> SystematicVariation" where
  "storeVariation ds a =
     (if isShapeSystematics (queryVariation ds a) then queryVariation ds a
      else nominalSystematics ds)"

text \<open>The key under which the store is read (line 856) and written (line 874).\<close>

definition queryKey :: "Dataset \<Rightarrow> HistArgs \<Rightarrow> Key" where
  "queryKey ds a = storeKey ds (storeVariation ds a) (queryVariable ds a) (queryCut ds a)"

text \<open>
  Lines 866 to 868: the weight of the systematics is multiplied into the weight
  expression and the histogram is filled from the tree.
\<close>

definition scanHistogram :: "Env \<Rightarrow> Dataset \<Rightarrow> HistArgs \<Rightarrow> Tree \<Rightarrow> Histogram option" where
  "scanHistogram env ds a tree =
     createHistogramFromTree env (queryVariable ds a) tree (queryCut ds a)
       (weight_mul (queryWeight ds a)
          (cut (totalWeight env (querySystematicsSet ds a) (queryVariation ds a)
                  (Some (queryCut ds a)))))"

text \<open>
  Lines 870 to 872: the histogram just filled is divided by the sum of weights \<open>s\<close> when
  that sum and the integral over all bins are not zero and the dataset is not data.
\<close>

definition divideBySumOfWeights :: "real \<Rightarrow> Dataset \<Rightarrow> Histogram \<Rightarrow> Histogram" where
  "divideBySumOfWeights s ds h =
     (if s = 0 then h
      else if TH1_Integral h = 0 then h
      else if isData ds then h
      else TH1_Scale (1 / s) h)"

text \<open>
  Lines 877 to 886: forced binning, overflow bins, and the scale factor, which is the
  product of the scale factors of the dataset, of the systematics and, unless the dataset
  is data, of the luminosity.
\<close>

definition queryScaleFactor :: "Env \<Rightarrow> Dataset \<Rightarrow> HistArgs \<Rightarrow> real" where
  "queryScaleFactor env ds a =
     (let sF = combinedScaleFactors ds
                 * totalScaleFactor env (querySystematicsSet ds a) (queryVariation ds a)
                     (queryCut ds a)
      in if isData ds then sF else sF * luminosity a)"

definition applyScaleFactors :: "Env \<Rightarrow> Dataset \<Rightarrow> HistArgs \<Rightarrow> Histogram \<Rightarrow> Histogram" where
  "applyScaleFactors env ds a h =
     (let h1 = (if forceBinning a then Tools_forceBinning env h (queryVariable ds a) else h);
          h2 = (if includeOverflowBins a then overflowIntoLastBins env h1 else h1)
      in TH1_Scale (queryScaleFactor env ds a) h2)"

text \<open>
  Lines 876 to 896: the scale factors, then the blinding of data, which changes the
  histogram object in place (a null histogram stays null).
\<close>

definition finishHistogram ::
  "Env \<Rightarrow> Dataset \<Rightarrow> HistArgs \<Rightarrow> Histogram option \<Rightarrow> Histogram option" where
  "finishHistogram env ds a hist =
     (let h = map_option (applyScaleFactors env ds a) hist
      in if isData ds then map_option (applyBlinding env (queryVariable ds a) (queryCut ds a)) h
         else h)"

text \<open>
  Lines 862 to 874: the tree of the variation is opened, and the query returns nothing
  when the tree tests false; else the histogram is filled. The condition of line 870
  reads the property \<^verbatim>\<open>sumOfWeights\<close> when the histogram is not null, before it looks at
  \<^verbatim>\<open>isData\<close>, so an exception of the property leaves the query there. The histogram,
  divided by the sum of weights, is put into the store, and the query goes on with it.
\<close>

definition storeHistogram :: "Dataset \<Rightarrow> HistArgs \<Rightarrow> Histogram option \<Rightarrow> World \<Rightarrow> World" where
  "storeHistogram ds a hist w =
     (case histogramStore ds of
        None \<Rightarrow> w
      | Some sid \<Rightarrow>
          w\<lparr>stores := (stores w)
               (sid := store_putHistogram (stores w sid) ds (storeVariation ds a)
                         (queryVariable ds a) (queryCut ds a) hist)\<rparr>)"

definition createHistogram ::
  "Env \<Rightarrow> Dataset \<Rightarrow> HistArgs \<Rightarrow> World \<Rightarrow> (error + Histogram option) \<times> World" where
  "createHistogram env ds a w =
     (case open_tree env ds (treeName (queryVariation ds a)) w of
        (Inl e, w1) \<Rightarrow> (Inl e, w1)
      | (Inr tree, w1) \<Rightarrow>
          if tree_nonzero env tree then
            (let w2 = w1\<lparr>draws := draws w1 + 1\<rparr> in
             case scanHistogram env ds a tree of
               None \<Rightarrow> (Inr (finishHistogram env ds a None), storeHistogram ds a None w2)
             | Some h \<Rightarrow>
                 (case sumOfWeights env ds of
                    Inl e \<Rightarrow> (Inl e, w2)
                  | Inr s \<Rightarrow>
                      (Inr (finishHistogram env ds a (Some (divideBySumOfWeights s ds h))),
                       storeHistogram ds a (Some (divideBySumOfWeights s ds h)) w2)))
          else (Inr None, w1))"

text \<open>
  \<^verbatim>\<open>Dataset.getHistogram\<close>: the store is read when the dataset has one; the histogram is
  created when none was found or \<^verbatim>\<open>recreate\<close> is set.
\<close>

definition getHistogram ::
  "Env \<Rightarrow> Dataset \<Rightarrow> HistArgs \<Rightarrow> World \<Rightarrow> (error + Histogram option) \<times> World" where
  "getHistogram env ds a w =
     (let hist = (case histogramStore ds of
                    None \<Rightarrow> None
                  | Some sid \<Rightarrow>
                      store_getHistogram (stores w sid) ds (storeVariation ds a)
                        (queryVariable ds a) (queryCut ds a))
      in if recreate a then createHistogram env ds a w
         else (case hist of
                 None \<Rightarrow> createHistogram env ds a w
               | Some h \<Rightarrow> (Inr (finishHistogram env ds a (Some h)), w)))"

subsection \<open>The yield and the values of a dataset\<close>

text \<open>The arguments of \<^verbatim>\<open>getYield\<close>; \<^verbatim>\<open>ignoreSF\<close> is accepted and never read.\<close>

record YieldArgs =
  y_cut :: Cut
  y_weightExpression :: string
  y_luminosity :: real
  ignoreWeights :: bool
  y_systematicVariation :: "SystematicVariation option"
  y_ignoreDataWeight :: bool
  ignoreSF :: bool
  y_systematicsSet :: "string set option"
  y_recreate :: bool

definition yieldHistArgs :: "Env \<Rightarrow> YieldArgs \<Rightarrow> HistArgs" where
  "yieldHistArgs env y =
     \<lparr>xVar = var_Yield env, cut_arg = y_cut y, weightExpression_arg = y_weightExpression y,
      luminosity = y_luminosity y, recreate = y_recreate y,
      systematicVariation = y_systematicVariation y, includeOverflowBins = False,
      ignoreDataWeight = y_ignoreDataWeight y, systematicsSet_arg = y_systematicsSet y,
      forceBinning = False\<rparr>"

text \<open>
  \<^verbatim>\<open>Dataset.getYield\<close>: the histogram of \<^verbatim>\<open>var_Yield\<close>, then its entries or its integral.
  The method calls \<^verbatim>\<open>hist.GetEntries()\<close> or \<^verbatim>\<open>hist.IntegralAndError\<close> on what
  \<^verbatim>\<open>getHistogram\<close> returned: on \<^verbatim>\<open>None\<close> Python raises \<^verbatim>\<open>AttributeError\<close>, and
  \<^verbatim>\<open>math.sqrt\<close> raises \<^verbatim>\<open>ValueError\<close> on a negative number. An exception of
  \<^verbatim>\<open>getHistogram\<close> leaves the method.
\<close>

definition getYield ::
  "Env \<Rightarrow> Dataset \<Rightarrow> YieldArgs \<Rightarrow> World \<Rightarrow> (error + real \<times> real) \<times> World" where
  "getYield env ds y w =
     (case getHistogram env ds (yieldHistArgs env y) w of
        (Inl e, w') \<Rightarrow> (Inl e, w')
      | (Inr None, w') \<Rightarrow> (Inl AttributeError, w')
      | (Inr (Some hist), w') \<Rightarrow>
          if ignoreWeights y
          then (if entries hist < 0 then (Inl ValueError, w')
                else (Inr (entries hist, sqrt (entries hist)), w'))
          else (Inr (TH1_IntegralAndError hist), w'))"

text \<open>
  \<^verbatim>\<open>Dataset.getValues\<close>: the variation given or the nominal one is used as it is; the
  weights are scaled by the scale factors and, unless the dataset is data, the luminosity.
\<close>

definition getValues ::
  "Env \<Rightarrow> Dataset \<Rightarrow> Variable \<Rightarrow> Cut \<Rightarrow> string \<Rightarrow> real \<Rightarrow> SystematicVariation option
     \<Rightarrow> string set option \<Rightarrow> World \<Rightarrow> (error + (real list \<times> real list) option) \<times> World" where
  "getValues env ds xv0 c0 weight0 lumi v s w =
     (let weight = (if weight0 = [] then weightExpression ds else weight0);
          sv = (case v of None \<Rightarrow> nominalSystematics ds | Some x \<Rightarrow> x);
          sset = effectiveSystematicsSet ds s;
          c = cut_mul (cut_mul (determineCut ds c0) weight) (cut (totalWeight env sset sv None));
          xv = determineVariable ds xv0
      in case open_tree env ds (treeName sv) w of
           (Inl e, w1) \<Rightarrow> (Inl e, w1)
         | (Inr tree, w1) \<Rightarrow>
             if tree_nonzero env tree then
             (let vw = getValuesFromTree env tree xv (cut c);
                  sF = combinedScaleFactors ds * totalScaleFactor env sset sv c;
                  sF' = (if isData ds then sF else sF * lumi)
              in (Inr (Some (fst vw, map (\<lambda>x. x * sF') (snd vw))), w1))
             else (Inr None, w1))"

subsection \<open>Physics processes\<close>

text \<open>
  A \<^verbatim>\<open>PhysicsProcess\<close> is a dataset object with a list of daughters, each a dataset or a
  physics process; a call of \<^verbatim>\<open>getHistogram\<close> on a daughter is dispatched on its class.
  \<^verbatim>\<open>PhysicsProcess.getHistogram\<close> resolves its own systematics set, cut and variable,
  hands them to every daughter, skips with a warning a daughter that returns no
  histogram, keeps the first histogram returned, adds the later ones to it and scales the
  result by its own scale factors. An exception of a daughter leaves the method.
\<close>

datatype Node = DatasetNode Dataset | PhysicsProcess Dataset "Node list"

text \<open>\<^verbatim>\<open>PhysicsProcess.__init__\<close>: no cross section is set, the scale factors hold the k factor.\<close>

definition PhysicsProcess_init :: "string \<Rightarrow> string \<Rightarrow> real \<Rightarrow> bool \<Rightarrow> Dataset" where
  "PhysicsProcess_init nm ttl kFactor is_data =
     (Dataset_init nm ttl [] [] [] 1 kFactor is_data)
       \<lparr>scaleFactors := AList.update ''kFactor'' kFactor []\<rparr>"

fun getHistogramN ::
    "Env \<Rightarrow> Node \<Rightarrow> HistArgs \<Rightarrow> World \<Rightarrow> (error + Histogram option) \<times> World"
  and mergeDaughters ::
    "Env \<Rightarrow> Node list \<Rightarrow> HistArgs \<Rightarrow> Histogram option \<Rightarrow> World
       \<Rightarrow> (error + Histogram option) \<times> World"
where
  "getHistogramN env (DatasetNode ds) a w = getHistogram env ds a w"
| "getHistogramN env (PhysicsProcess p daughters) a w =
     (let sset = effectiveSystematicsSet p (systematicsSet_arg a);
          c = determineCut p (cut_arg a);
          xv = determineVariable p (xVar a);
          r = mergeDaughters env daughters
                (a\<lparr>xVar := xv, cut_arg := c, systematicsSet_arg := Some sset\<rparr>) None w
      in (case fst r of
            Inl e \<Rightarrow> Inl e
          | Inr histogram \<Rightarrow> Inr (map_option (TH1_Scale (combinedScaleFactors p)) histogram),
          snd r))"
| "mergeDaughters env [] a histogram w = (Inr histogram, w)"
| "mergeDaughters env (d # daughters) a histogram w =
     (case getHistogramN env d a w of
        (Inl e, w1) \<Rightarrow> (Inl e, w1)
      | (Inr None, w1) \<Rightarrow>
          mergeDaughters env daughters a histogram (w1\<lparr>warnings := warnings w1 + 1\<rparr>)
      | (Inr (Some h), w1) \<Rightarrow>
          mergeDaughters env daughters a
            (case histogram of None \<Rightarrow> Some h | Some g \<Rightarrow> Some (TH1_Add g h)) w1)"

subsection \<open>Dataset objects and their copies\<close>

text \<open>
  \<^verbatim>\<open>Dataset.copy\<close> is about which objects two datasets share, so here a dataset is an
  object in a memory: its attributes hold the addresses of its lists and dictionaries,
  and the memory maps an address to the content of a list or dictionary. A new list or
  dictionary gets the next unused address. The attributes followed are the name, the
  title and the lists and dictionaries that \<^verbatim>\<open>__init__\<close> creates; attributes bound to
  numbers, strings and truth values are copied with the object and cannot be shared.
  \<open>DATASETS\<close> is the registry of the module.
\<close>

type_synonym addr = nat

datatype Val = VStr string | VNum real | VCut Cut | VTree Tree

datatype Container = PyList "Val list" | PyDict "(string \<times> Val) list"

record Attrs =
  at_name :: string
  at_title :: string
  at_openTrees :: addr
  at_treeEntryLists :: addr
  at_scaleFactors :: addr
  at_scaleFactorsUncertainty :: addr
  at_fileNames :: addr
  at_friendTrees :: addr
  at_ignoreCuts :: addr
  at_addCuts :: addr
  at_replaceVariables :: addr
  at_systematicsSet :: addr

record Memory =
  objects :: "addr \<Rightarrow> Attrs option"
  containers :: "addr \<Rightarrow> Container option"
  fresh :: addr
  DATASETS :: "string \<Rightarrow> addr option"
  registry_warnings :: nat

definition empty_memory :: Memory where
  "empty_memory =
     \<lparr>objects = (\<lambda>r. None), containers = (\<lambda>r. None), fresh = 0, DATASETS = (\<lambda>n. None),
      registry_warnings = 0\<rparr>"

text \<open>A new list or dictionary with the given content.\<close>

definition alloc :: "Container \<Rightarrow> Memory \<Rightarrow> addr \<times> Memory" where
  "alloc c m = (fresh m, m\<lparr>containers := (containers m)(fresh m := Some c), fresh := fresh m + 1\<rparr>)"

text \<open>
  \<^verbatim>\<open>copy(x)\<close> and \<^verbatim>\<open>x.copy()\<close> of a list or dictionary: a new one with the same
  elements.
\<close>

definition copy_container :: "addr \<Rightarrow> Memory \<Rightarrow> addr \<times> Memory" where
  "copy_container r m = alloc (case containers m r of None \<Rightarrow> PyList [] | Some c \<Rightarrow> c) m"

text \<open>\<^verbatim>\<open>d[k] = v\<close> on the dictionary at an address, \<^verbatim>\<open>l.append(v)\<close> on the list at an address.\<close>

definition dict_setitem :: "addr \<Rightarrow> string \<Rightarrow> Val \<Rightarrow> Memory \<Rightarrow> Memory" where
  "dict_setitem r k v m =
     (case containers m r of
        Some (PyDict kvs) \<Rightarrow> m\<lparr>containers := (containers m)(r := Some (PyDict (AList.update k v kvs)))\<rparr>
      | _ \<Rightarrow> m)"

definition list_append :: "addr \<Rightarrow> Val \<Rightarrow> Memory \<Rightarrow> Memory" where
  "list_append r v m =
     (case containers m r of
        Some (PyList xs) \<Rightarrow> m\<lparr>containers := (containers m)(r := Some (PyList (xs @ [v])))\<rparr>
      | _ \<Rightarrow> m)"

text \<open>
  \<^verbatim>\<open>Dataset._register\<close>, called by the setter of \<^verbatim>\<open>name\<close> after the new name is stored:
  the entry of the old name is deleted when it is this object, a warning is logged when
  the new name belongs to another object, and the new name is bound to this object.
\<close>

definition register :: "addr \<Rightarrow> string \<Rightarrow> string \<Rightarrow> Memory \<Rightarrow> Memory" where
  "register self newName oldName m =
     (let m1 = (if oldName = [] then m
                else if DATASETS m oldName = Some self
                then m\<lparr>DATASETS := (DATASETS m)(oldName := None)\<rparr> else m);
          m2 = (case DATASETS m1 newName of
                  None \<Rightarrow> m1
                | Some other \<Rightarrow>
                    if other = self then m1
                    else m1\<lparr>registry_warnings := registry_warnings m1 + 1\<rparr>)
      in m2\<lparr>DATASETS := (DATASETS m2)(newName := Some self)\<rparr>)"

text \<open>
  A name handed to the setter of \<^verbatim>\<open>name\<close>: the very string object the dataset holds as
  its name, or another string object with a text (which may be the text of the name).
\<close>

datatype NameArg = SameObject | NewString string

text \<open>
  The setter of \<^verbatim>\<open>name\<close> on an object that has a name: the name is stored, and the test
  \<^verbatim>\<open>name is not oldName\<close> compares the two string objects, so the object is registered
  again for every other string object, also one with the text of the old name.
\<close>

definition set_name :: "addr \<Rightarrow> NameArg \<Rightarrow> Memory \<Rightarrow> Memory" where
  "set_name self arg m =
     (case objects m self of
        None \<Rightarrow> m
      | Some ob \<Rightarrow>
          (case arg of
             SameObject \<Rightarrow> m
           | NewString nm \<Rightarrow>
               register self nm (at_name ob)
                 (m\<lparr>objects := (objects m)(self := Some (ob\<lparr>at_name := nm\<rparr>))\<rparr>)))"

definition set_title :: "addr \<Rightarrow> string \<Rightarrow> Memory \<Rightarrow> Memory" where
  "set_title self ttl m =
     (case objects m self of
        None \<Rightarrow> m
      | Some ob \<Rightarrow> m\<lparr>objects := (objects m)(self := Some (ob\<lparr>at_title := ttl\<rparr>))\<rparr>)"

text \<open>
  \<^verbatim>\<open>Dataset.__init__\<close> on objects: every \<^verbatim>\<open>{}\<close> and \<^verbatim>\<open>[]\<close> is a new dictionary or list,
  the setters of \<^verbatim>\<open>crossSection\<close> and \<^verbatim>\<open>kFactor\<close> write into \<^verbatim>\<open>scaleFactors\<close>, and the list
  of file names is the caller's list when that is given and not empty. The new object is
  registered under its name (it had no name before).
\<close>

definition Dataset_new ::
  "string \<Rightarrow> string \<Rightarrow> addr option \<Rightarrow> real \<Rightarrow> real \<Rightarrow> Memory \<Rightarrow> addr \<times> Memory" where
  "Dataset_new nm ttl files crossSection kFactor m =
     (let self = fresh m;
          m0 = m\<lparr>fresh := fresh m + 1\<rparr>;
          (openTrees, m1) = alloc (PyDict []) m0;
          (treeEntryLists, m2) = alloc (PyDict []) m1;
          (sF, m3) = alloc (PyDict []) m2;
          (sFU, m4) = alloc (PyDict []) m3;
          m5 = dict_setitem sF ''kFactor'' (VNum kFactor)
                 (dict_setitem sF ''crossSection'' (VNum crossSection) m4);
          (fileNames, m6) =
            (case files of
               None \<Rightarrow> alloc (PyList []) m5
             | Some r \<Rightarrow>
                 (case containers m5 r of
                    Some (PyList (x # xs)) \<Rightarrow> (r, m5)
                  | _ \<Rightarrow> alloc (PyList []) m5));
          (friendTrees, m7) = alloc (PyList []) m6;
          (ignoreCuts, m8) = alloc (PyList []) m7;
          (addCuts, m9) = alloc (PyList []) m8;
          (replaceVariables, m10) = alloc (PyDict []) m9;
          (systematicsSet, m11) = alloc (PyList []) m10;
          ob = \<lparr>at_name = nm, at_title = (if ttl = [] then nm else ttl),
                at_openTrees = openTrees, at_treeEntryLists = treeEntryLists,
                at_scaleFactors = sF, at_scaleFactorsUncertainty = sFU,
                at_fileNames = fileNames, at_friendTrees = friendTrees,
                at_ignoreCuts = ignoreCuts, at_addCuts = addCuts,
                at_replaceVariables = replaceVariables, at_systematicsSet = systematicsSet\<rparr>
      in (self, register self nm [] (m11\<lparr>objects := (objects m11)(self := Some ob)\<rparr>)))"

text \<open>
  \<^verbatim>\<open>Dataset.copy\<close>: \<^verbatim>\<open>copy(self)\<close> is a new object whose attributes are bound to the
  objects the attributes of \<^verbatim>\<open>self\<close> are bound to; then the name and the title are set and
  \<^verbatim>\<open>openTrees\<close>, \<^verbatim>\<open>friendTrees\<close>, \<^verbatim>\<open>scaleFactors\<close>, \<^verbatim>\<open>fileNames\<close>, \<^verbatim>\<open>ignoreCuts\<close>, \<^verbatim>\<open>addCuts\<close>
  and \<^verbatim>\<open>systematicsSet\<close> are bound to copies, in this order.
\<close>

definition copy :: "addr \<Rightarrow> NameArg \<Rightarrow> string \<Rightarrow> Memory \<Rightarrow> addr \<times> Memory" where
  "copy self nm ttl m =
     (case objects m self of
        None \<Rightarrow> (self, m)
      | Some ob \<Rightarrow>
          (let dataset = fresh m;
               m0 = m\<lparr>objects := (objects m)(dataset := Some ob), fresh := fresh m + 1\<rparr>;
               m1 = set_title dataset ttl (set_name dataset nm m0);
               (openTrees, m2) = copy_container (at_openTrees ob) m1;
               (friendTrees, m3) = copy_container (at_friendTrees ob) m2;
               (sF, m4) = copy_container (at_scaleFactors ob) m3;
               (fileNames, m5) = copy_container (at_fileNames ob) m4;
               (ignoreCuts, m6) = copy_container (at_ignoreCuts ob) m5;
               (addCuts, m7) = copy_container (at_addCuts ob) m6;
               (systematicsSet, m8) = copy_container (at_systematicsSet ob) m7
           in (dataset,
               m8\<lparr>objects := (objects m8)
                    (dataset := map_option
                       (\<lambda>d. d\<lparr>at_openTrees := openTrees, at_friendTrees := friendTrees,
                               at_scaleFactors := sF, at_fileNames := fileNames,
                               at_ignoreCuts := ignoreCuts, at_addCuts := addCuts,
                               at_systematicsSet := systematicsSet\<rparr>)
                       (objects m8 dataset))\<rparr>)))"

text \<open>
  Reading the list or dictionary an attribute of an object is bound to, and the
  statements \<^verbatim>\<open>obj.attribute[k] = v\<close> and \<^verbatim>\<open>obj.attribute.append(v)\<close>.
\<close>

definition attribute :: "(Attrs \<Rightarrow> addr) \<Rightarrow> addr \<Rightarrow> Memory \<Rightarrow> Container option" where
  "attribute f self m = (case objects m self of None \<Rightarrow> None | Some ob \<Rightarrow> containers m (f ob))"

definition set_item :: "(Attrs \<Rightarrow> addr) \<Rightarrow> addr \<Rightarrow> string \<Rightarrow> Val \<Rightarrow> Memory \<Rightarrow> Memory" where
  "set_item f self k v m =
     (case objects m self of None \<Rightarrow> m | Some ob \<Rightarrow> dict_setitem (f ob) k v m)"

definition append_item :: "(Attrs \<Rightarrow> addr) \<Rightarrow> addr \<Rightarrow> Val \<Rightarrow> Memory \<Rightarrow> Memory" where
  "append_item f self v m =
     (case objects m self of None \<Rightarrow> m | Some ob \<Rightarrow> list_append (f ob) v m)"

subsection \<open>Notions used to state the properties\<close>

text \<open>
  The histogram the tree draw of a query returns, before any division or scaling: the
  tree of the variation is opened and the histogram is filled from it (nothing when
  opening the tree raises or the tree tests false).
\<close>

definition rawScan :: "Env \<Rightarrow> Dataset \<Rightarrow> HistArgs \<Rightarrow> World \<Rightarrow> Histogram option" where
  "rawScan env ds a w =
     (case fst (open_tree env ds (treeName (queryVariation ds a)) w) of
        Inl e \<Rightarrow> None
      | Inr tree \<Rightarrow> if tree_nonzero env tree then scanHistogram env ds a tree else None)"

text \<open>
  The histograms the daughters of a physics process return when they are asked one after
  the other, each in the state the one before left, a warning being logged for every
  daughter that returns none; the exception of the first daughter that raises one.
\<close>

fun daughterHistograms ::
  "Env \<Rightarrow> Node list \<Rightarrow> HistArgs \<Rightarrow> World \<Rightarrow> (error + Histogram option list) \<times> World" where
  "daughterHistograms env [] a w = (Inr [], w)"
| "daughterHistograms env (d # daughters) a w =
     (case getHistogramN env d a w of
        (Inl e, w1) \<Rightarrow> (Inl e, w1)
      | (Inr r, w1) \<Rightarrow>
          (case daughterHistograms env daughters a
                  (case r of None \<Rightarrow> w1\<lparr>warnings := warnings w1 + 1\<rparr> | Some h \<Rightarrow> w1) of
             (Inl e, w2) \<Rightarrow> (Inl e, w2)
           | (Inr rs, w2) \<Rightarrow> (Inr (r # rs), w2)))"

text \<open>The bin-wise sum of the histograms of a list, in the order of the list.\<close>

fun sumHistograms :: "Histogram list \<Rightarrow> Histogram option" where
  "sumHistograms [] = None"
| "sumHistograms (h # hs) = Some (foldl TH1_Add h hs)"

text \<open>The histograms of a list of results, the missing ones left out.\<close>

definition present :: "'a option list \<Rightarrow> 'a list" where
  "present rs = concat (map (\<lambda>r. case r of None \<Rightarrow> [] | Some h \<Rightarrow> [h]) rs)"

text \<open>The arguments a physics process hands to its daughters.\<close>

definition daughterArgs :: "Dataset \<Rightarrow> HistArgs \<Rightarrow> HistArgs" where
  "daughterArgs p a =
     a\<lparr>xVar := determineVariable p (xVar a), cut_arg := determineCut p (cut_arg a),
       systematicsSet_arg := Some (effectiveSystematicsSet p (systematicsSet_arg a))\<rparr>"

subsection \<open>Example scenarios\<close>

definition ex_pt :: Cut where
  "ex_pt = \<lparr>cut = ''pt > 20'', cut_title = []\<rparr>"

definition ex_eta :: Cut where
  "ex_eta = \<lparr>cut = ''eta < 2'', cut_title = []\<rparr>"

definition ex_presel :: Cut where
  "ex_presel = \<lparr>cut = ''n > 0'', cut_title = []\<rparr>"

definition ex_mc :: Dataset where
  "ex_mc = Dataset_init ''mc'' ''MC'' [''mc.root''] ''NOMINAL'' ''w'' 1 1 False"

text \<open>A dataset that both ignores and adds the cut on \<^verbatim>\<open>pt\<close>, with a preselection.\<close>

definition ex_cuts :: Dataset where
  "ex_cuts = ex_mc\<lparr>ignoreCuts := [ex_pt], addCuts := [ex_pt], preselection := ex_presel\<rparr>"

text \<open>
  An environment in which every chain opens, every tree draw returns a histogram with
  one bin between underflow and overflow, filled by two rows of weight 2, nothing is
  reweighted, rebinned or blinded, and every file opens and holds no histogram of sums.
\<close>

definition ex_hist :: Histogram where
  "ex_hist = \<lparr>contents = [0, 4, 0], sumw2 = [0, 8, 0], entries = 2\<rparr>"

definition ex_env :: Env where
  "ex_env =
     \<lparr>TChain = (\<lambda>tn files. \<lparr>chainName = tn, chainFiles = files, entryList = []\<rparr>),
      tree_nonzero = (\<lambda>t. True),
      createHistogramFromTree = (\<lambda>v t c wt. Some ex_hist),
      getValuesFromTree =
        (\<lambda>t v sel. if chainName t = ''NOMINAL'' then ([1], [1]) else ([2], [1])),
      totalWeight = (\<lambda>s v c. Cut0),
      totalScaleFactor = (\<lambda>s v c. 1),
      Tools_forceBinning = (\<lambda>h v. h),
      overflowIntoLastBins = (\<lambda>h. h),
      applyBlinding = (\<lambda>v c h. h),
      findAllFilesInPath = (\<lambda>pattern. [pattern]),
      TFile_Open = (\<lambda>fileName. OpenFile (\<lambda>histogramName. None)),
      var_Yield = ''yield''\<rparr>"

definition ex_world :: World where
  "ex_world = \<lparr>stores = (\<lambda>sid. Map.empty), draws = 0, warnings = 0\<rparr>"

definition ex_args :: HistArgs where
  "ex_args =
     \<lparr>xVar = ''mass'', cut_arg = ex_eta, weightExpression_arg = [], luminosity = 10,
      recreate = False, systematicVariation = None, includeOverflowBins = False,
      ignoreDataWeight = False, systematicsSet_arg = None, forceBinning = False\<rparr>"

definition ex_yield :: YieldArgs where
  "ex_yield =
     \<lparr>y_cut = ex_eta, y_weightExpression = [], y_luminosity = 10, ignoreWeights = False,
      y_systematicVariation = None, y_ignoreDataWeight = False, ignoreSF = False,
      y_systematicsSet = None, y_recreate = False\<rparr>"

text \<open>The simulated dataset with a sum of weights of 2 and the histogram store 0.\<close>

definition ex_stored :: Dataset where
  "ex_stored = ex_mc\<lparr>sumOfWeights_attr := 2, histogramStore := Some 0\<rparr>"

text \<open>The simulated dataset with a sum of weights of 2 and no histogram store.\<close>

definition ex_norm :: Dataset where
  "ex_norm = ex_mc\<lparr>sumOfWeights_attr := 2\<rparr>"

text \<open>
  A data sample read with a weight: the tree draw selects three rows of weight one half.
\<close>

definition ex_data :: Dataset where
  "ex_data = (Dataset_init ''data'' ''Data'' [''data.root''] ''data'' ''weight'' 1 1 True)
               \<lparr>sumOfWeights_attr := 12000\<rparr>"

definition ex_rows :: Histogram where
  "ex_rows = \<lparr>contents = [0, 3 / 2, 0], sumw2 = [0, 3 / 4, 0], entries = 3\<rparr>"

definition ex_env_rows :: Env where
  "ex_env_rows = ex_env\<lparr>createHistogramFromTree := (\<lambda>v t c wt. Some ex_rows)\<rparr>"

text \<open>An environment in which no file is found and a chain without files tests false.\<close>

definition ex_env_missing :: Env where
  "ex_env_missing =
     ex_env\<lparr>TChain := (\<lambda>tn files. \<lparr>chainName = tn, chainFiles = [], entryList = []\<rparr>),
            tree_nonzero := (\<lambda>t. chainFiles t \<noteq> [])\<rparr>"

text \<open>An environment in which the tree draw returns a null histogram.\<close>

definition ex_env_null :: Env where
  "ex_env_null = ex_env\<lparr>createHistogramFromTree := (\<lambda>v t c wt. None)\<rparr>"

text \<open>A shape variation of a systematics that no dataset has registered.\<close>

definition ex_up :: SystematicVariation where
  "ex_up =
     \<lparr>variationName = ''JES_up'', treeName = ''JES_UP'', systematics = Some ''JES'',
      isShapeSystematics = True\<rparr>"

text \<open>
  A physics process with a scale factor of 3 over a daughter without files, whose chain
  tests false, and two daughters that return the histogram above.
\<close>

definition ex_env_partial :: Env where
  "ex_env_partial = ex_env\<lparr>tree_nonzero := (\<lambda>t. chainFiles t \<noteq> [])\<rparr>"

definition ex_process :: Node where
  "ex_process =
     PhysicsProcess
       (PhysicsProcess_init ''bkg'' ''Backgrounds'' 3 False)
       [DatasetNode (ex_mc\<lparr>name := ''lost'', fileNames := []\<rparr>), DatasetNode ex_mc,
        DatasetNode (ex_mc\<lparr>name := ''mc2''\<rparr>)]"


text \<open>
  A memory with one dataset, then with a copy of it.
\<close>

definition ex_mem1 :: "addr \<times> Memory" where
  "ex_mem1 = Dataset_new ''mc'' ''MC'' None 5 1 empty_memory"

definition ex_mem2 :: "addr \<times> Memory" where
  "ex_mem2 = copy (fst ex_mem1) (NewString ''mc_copy'') ''MC copy'' (snd ex_mem1)"

text \<open>The state after the dataset with the store was asked once.\<close>

definition ex_cached :: World where
  "ex_cached = snd (getHistogram ex_env ex_stored ex_args ex_world)"






text \<open>An environment in which the files of a dataset cannot be opened.\<close>

definition ex_env_nofile :: Env where
  "ex_env_nofile = ex_env\<lparr>TFile_Open := (\<lambda>fileName. NullFile)\<rparr>"

section \<open>Properties\<close>

subsection \<open>The cut of a query\<close>

lemma open_tree_preselection:
  "chainFiles (TChain env tn (fileNames ds)) \<noteq> [] \<Longrightarrow> tn \<noteq> [] \<Longrightarrow>
   fst (open_tree env ds tn w) = Inr tree \<Longrightarrow> entryList tree = cut (preselection ds)"
  by (auto simp: open_tree_def applyPreselectionToTree_def Let_def split: sum.splits)

lemma sublist_join_right: "sublist b (join_with sep a b)"
proof -
  have "sublist b ((a @ sep) @ b)" by (rule sublist_append_leftI)
  then show ?thesis by (simp add: join_with_def)
qed

lemma sublist_join_left: "sublist x a \<Longrightarrow> sublist x (join_with sep a b)"
  unfolding join_with_def
  by (auto simp: sublist_append intro: sublist_order.order_trans)

lemma foldl_cut_add_keeps:
  "sublist x (cut a) \<Longrightarrow> sublist x (cut (foldl cut_add a bs))"
  by (induction bs arbitrary: a) (simp_all add: cut_add_def sublist_join_left)

lemma foldl_cut_add_contains:
  "b \<in> set bs \<Longrightarrow> sublist (cut b) (cut (foldl cut_add a bs))"
proof (induction bs arbitrary: a)
  case Nil
  then show ?case by simp
next
  case (Cons x xs)
  show ?case
  proof (cases "b = x")
    case True
    have "sublist (cut b) (cut (cut_add a x))"
      using True by (simp add: cut_add_def sublist_join_right)
    then show ?thesis by (simp add: foldl_cut_add_keeps)
  next
    case False
    then show ?thesis using Cons by simp
  qed
qed

text \<open>
  C1, as the code has it. The cut of a query is the user's cut with the ignored cuts
  removed, and the added cuts are conjoined after that removal: the result is the fold of
  the conjunction over \<^verbatim>\<open>addCuts\<close>, started from the cut obtained with no added cut, which
  is the user's cut without the ignored cuts. So the expression of every added cut is
  part of the expression of the result, whether or not the cut is also ignored. The
  preselection is no part of the resolved cut (it is the entry list of the opened tree).
\<close>

theorem determineCut_removes_then_adds:
  "determineCut ds c = foldl cut_add (determineCut (ds\<lparr>addCuts := []\<rparr>) c) (addCuts ds)
   \<and> determineCut (ds\<lparr>addCuts := []\<rparr>) c = foldl withoutCut (cut_add Cut0 c) (ignoreCuts ds)
   \<and> (\<forall>a \<in> set (addCuts ds). sublist (cut a) (cut (determineCut ds c)))
   \<and> determineCut (ds\<lparr>preselection := p\<rparr>) c = determineCut ds c"
  by (simp add: determineCut_def foldl_cut_add_contains)

theorem determineCut_removes_then_adds_witness:
  "sublist ''pt > 20'' (cut (determineCut ex_cuts ex_eta))
   \<and> cut (determineCut ex_cuts ex_eta) = ''eta < 2 && pt > 20''"
proof -
  have "\<forall>a \<in> set (addCuts ex_cuts). sublist (cut a) (cut (determineCut ex_cuts ex_eta))"
    using determineCut_removes_then_adds [of ex_cuts ex_eta] by blast
  moreover have "ex_pt \<in> set (addCuts ex_cuts)"
    by (simp add: ex_cuts_def)
  ultimately have "sublist (cut ex_pt) (cut (determineCut ex_cuts ex_eta))"
    by blast
  moreover have "cut (determineCut ex_cuts ex_eta) = ''eta < 2 && pt > 20''"
    by (simp add: determineCut_def ex_cuts_def ex_mc_def Dataset_init_def ex_pt_def ex_eta_def
        cut_add_def Cut0_def withoutCut_def join_with_def)
  ultimately show ?thesis by (simp add: ex_pt_def)
qed

text \<open>
  C1, as the specification states it, fails: with the cut on \<^verbatim>\<open>pt\<close> both ignored and
  added, removing after combining drops it and keeps the preselection, while the code
  keeps the added cut and has no preselection in the expression.
\<close>

theorem determineCut_not_resolveCut_spec:
  "determineCut ex_cuts ex_eta \<noteq> resolveCut_spec ex_cuts ex_eta
   \<and> cut (resolveCut_spec ex_cuts ex_eta) = ''n > 0 && eta < 2''"
  by (simp add: determineCut_def resolveCut_spec_def ex_cuts_def ex_mc_def Dataset_init_def
      ex_pt_def ex_eta_def ex_presel_def cut_add_def Cut0_def withoutCut_def join_with_def)

subsection \<open>The histogram store\<close>

lemmas example_defs = ex_mc_def ex_stored_def ex_norm_def ex_env_def ex_world_def ex_args_def
  ex_yield_def ex_hist_def ex_eta_def ex_pt_def Dataset_init_def ex_data_def ex_rows_def
  ex_env_rows_def ex_env_missing_def ex_env_null_def ex_up_def

lemmas query_defs = getHistogram_def createHistogram_def storeHistogram_def finishHistogram_def
  applyScaleFactors_def queryScaleFactor_def divideBySumOfWeights_def scanHistogram_def
  queryKey_def storeVariation_def queryVariation_def querySystematicsSet_def queryVariable_def
  queryCut_def queryWeight_def resolveVariation_def effectiveSystematicsSet_def sumOfWeights_def
  calculate_def getDatasetHistogramBinContent_def addBinContent_def open_tree_def rawScan_def
  applyPreselectionToTree_def store_getHistogram_def store_putHistogram_def storeKey_def
  determineCut_def determineVariable_def combinedScaleFactors_def cut_add_def Cut0_def join_with_def
  TH1_Scale_def TH1_Integral_def TH1_IntegralAndError_def weight_mul_def


lemma ex_cached_entry:
  "stores ex_cached 0 (queryKey ex_stored ex_args)
     = Some \<lparr>contents = [0, 2, 0], sumw2 = [0, 2, 0], entries = 2\<rparr>"
  by (simp add: ex_cached_def example_defs query_defs)

lemma open_tree_world:
  "draws (snd (open_tree env ds tn w)) = draws w"
  "stores (snd (open_tree env ds tn w)) = stores w"
  by (simp_all add: open_tree_def Let_def split: sum.splits)

lemma storeHistogram_entry:
  "histogramStore ds = Some sid \<Longrightarrow>
   stores (storeHistogram ds a (Some h) w) sid (queryKey ds a) = Some h"
  by (simp add: storeHistogram_def store_putHistogram_def queryKey_def)


lemma createHistogram_rawScan:
  assumes "rawScan env ds a w = Some h" and "sumOfWeights env ds = Inr s"
  shows "createHistogram env ds a w =
     (Inr (finishHistogram env ds a (Some (divideBySumOfWeights s ds h))),
      storeHistogram ds a (Some (divideBySumOfWeights s ds h))
        ((snd (open_tree env ds (treeName (queryVariation ds a)) w))
           \<lparr>draws := draws w + 1\<rparr>))"
  using assms open_tree_world(1) [of env ds "treeName (queryVariation ds a)" w]
  by (auto simp: rawScan_def createHistogram_def Let_def
      split: prod.splits sum.splits if_splits)

lemma getHistogram_miss:
  "recreate a \<or> (case histogramStore ds of None \<Rightarrow> True
                  | Some sid \<Rightarrow> stores w sid (queryKey ds a) = None) \<Longrightarrow>
   getHistogram env ds a w = createHistogram env ds a w"
  by (auto simp: getHistogram_def Let_def store_getHistogram_def queryKey_def
      split: option.splits)

lemma getHistogram_hit:
  "histogramStore ds = Some sid \<Longrightarrow> stores w sid (queryKey ds a) = Some h \<Longrightarrow> \<not> recreate a \<Longrightarrow>
   getHistogram env ds a w = (Inr (finishHistogram env ds a (Some h)), w)"
  by (simp add: getHistogram_def Let_def store_getHistogram_def queryKey_def)

text \<open>
  C2, as the code has it. When a dataset with a store creates a histogram (nothing is
  stored under the key, or \<^verbatim>\<open>recreate\<close> is set) and the dataset is not data, its sum of
  weights is not zero and the integral of the filled histogram is not zero, then the
  histogram found in the store afterwards is the filled histogram divided by the sum of
  weights, and nothing else has been applied to it.
\<close>

theorem stored_histogram_divided_by_sumOfWeights:
  assumes "histogramStore ds = Some sid"
      and "recreate a \<or> stores w sid (queryKey ds a) = None"
      and "rawScan env ds a w = Some h"
      and "\<not> isData ds" and "sumOfWeights env ds = Inr s" and "s \<noteq> 0"
      and "TH1_Integral h \<noteq> 0"
  shows "stores (snd (getHistogram env ds a w)) sid (queryKey ds a)
           = Some (TH1_Scale (1 / s) h)"
proof -
  have g: "getHistogram env ds a w = createHistogram env ds a w"
    using assms(1,2) by (intro getHistogram_miss) auto
  have d: "divideBySumOfWeights s ds h = TH1_Scale (1 / s) h"
    using assms(4,6,7) by (simp add: divideBySumOfWeights_def)
  show ?thesis
    by (simp add: g createHistogram_rawScan [OF assms(3,5)] storeHistogram_entry [OF assms(1)] d)
qed

theorem stored_histogram_divided_by_sumOfWeights_witness:
  "stores (snd (getHistogram ex_env ex_stored ex_args ex_world)) 0 (queryKey ex_stored ex_args)
     = Some (TH1_Scale (1 / 2) ex_hist)"
proof -
  have 1: "histogramStore ex_stored = Some 0"
    by (simp add: example_defs)
  have 2: "recreate ex_args \<or> stores ex_world 0 (queryKey ex_stored ex_args) = None"
    by (simp add: example_defs)
  have 3: "rawScan ex_env ex_stored ex_args ex_world = Some ex_hist"
    by (simp add: example_defs query_defs)
  have 4: "\<not> isData ex_stored"
    by (simp add: example_defs)
  have 5: "sumOfWeights ex_env ex_stored = Inr 2"
    by (simp add: example_defs sumOfWeights_def)
  have 6: "(2::real) \<noteq> 0"
    by simp
  have 7: "TH1_Integral ex_hist \<noteq> 0"
    by (simp add: example_defs TH1_Integral_def)
  from stored_histogram_divided_by_sumOfWeights [OF 1 2 3 4 5 6 7] show ?thesis .
qed

text \<open>
  C2, as the specification states it, fails: the tree draw returns a histogram whose bin
  holds 4, the sum of weights is 2, and the histogram found in the store holds 2.
\<close>

theorem stored_histogram_not_raw:
  "rawScan ex_env ex_stored ex_args ex_world
     = Some \<lparr>contents = [0, 4, 0], sumw2 = [0, 8, 0], entries = 2\<rparr>
   \<and> stores (snd (getHistogram ex_env ex_stored ex_args ex_world)) 0 (queryKey ex_stored ex_args)
     = Some \<lparr>contents = [0, 2, 0], sumw2 = [0, 2, 0], entries = 2\<rparr>"
  by (simp add: example_defs query_defs)













subsection \<open>Data, luminosity and the sum of weights\<close>

lemma luminosity_frame:
  shows "queryCut ds (a\<lparr>luminosity := l\<rparr>) = queryCut ds a"
    and "queryVariable ds (a\<lparr>luminosity := l\<rparr>) = queryVariable ds a"
    and "querySystematicsSet ds (a\<lparr>luminosity := l\<rparr>) = querySystematicsSet ds a"
    and "queryVariation ds (a\<lparr>luminosity := l\<rparr>) = queryVariation ds a"
    and "storeVariation ds (a\<lparr>luminosity := l\<rparr>) = storeVariation ds a"
    and "scanHistogram env ds (a\<lparr>luminosity := l\<rparr>) tree = scanHistogram env ds a tree"
    and "storeHistogram ds (a\<lparr>luminosity := l\<rparr>) = storeHistogram ds a"
  by (simp_all add: queryCut_def queryVariable_def querySystematicsSet_def queryVariation_def
      storeVariation_def scanHistogram_def queryWeight_def storeHistogram_def fun_eq_iff
      split: option.splits)

lemma data_applyScaleFactors_luminosity:
  "isData ds \<Longrightarrow> applyScaleFactors env ds (a\<lparr>luminosity := l\<rparr>) = applyScaleFactors env ds a"
  by (simp add: fun_eq_iff applyScaleFactors_def queryScaleFactor_def luminosity_frame Let_def
      cong: if_cong)

lemma data_finishHistogram_luminosity:
  "isData ds \<Longrightarrow> finishHistogram env ds (a\<lparr>luminosity := l\<rparr>) hist = finishHistogram env ds a hist"
  by (simp add: finishHistogram_def data_applyScaleFactors_luminosity luminosity_frame)

lemma data_getHistogram_luminosity:
  assumes "isData ds"
  shows "getHistogram env ds (a\<lparr>luminosity := l\<rparr>) w = getHistogram env ds a w"
proof -
  have "createHistogram env ds (a\<lparr>luminosity := l\<rparr>) w = createHistogram env ds a w"
    unfolding createHistogram_def luminosity_frame data_finishHistogram_luminosity [OF assms] ..
  then show ?thesis
    by (simp add: getHistogram_def luminosity_frame data_finishHistogram_luminosity [OF assms]
        Let_def split: prod.splits option.splits)
qed

lemma sumOfWeights_frame:
  fixes env ds opn x
  defines "env' \<equiv> env\<lparr>TFile_Open := opn\<rparr>"
      and "ds' \<equiv> ds\<lparr>sumOfWeights_attr := x\<rparr>"
  shows "queryCut ds' a = queryCut ds a"
    and "queryVariable ds' a = queryVariable ds a"
    and "querySystematicsSet ds' a = querySystematicsSet ds a"
    and "queryVariation ds' a = queryVariation ds a"
    and "storeVariation ds' a = storeVariation ds a"
    and "scanHistogram env' ds' a tree = scanHistogram env ds a tree"
    and "finishHistogram env' ds' a hist = finishHistogram env ds a hist"
    and "storeHistogram ds' a = storeHistogram ds a"
    and "store_getHistogram st ds' sv xv c = store_getHistogram st ds sv xv c"
    and "histogramStore ds' = histogramStore ds"
    and "tree_nonzero env' = tree_nonzero env"
proof -
  show c: "queryCut ds' a = queryCut ds a"
    by (simp add: queryCut_def determineCut_def ds'_def)
  show v: "queryVariable ds' a = queryVariable ds a"
    by (simp add: queryVariable_def determineVariable_def ds'_def)
  show s: "querySystematicsSet ds' a = querySystematicsSet ds a"
    by (simp add: querySystematicsSet_def effectiveSystematicsSet_def ds'_def split: option.splits)
  show q: "queryVariation ds' a = queryVariation ds a"
    by (simp add: queryVariation_def s)
      (simp add: resolveVariation_def ds'_def Let_def split: option.splits)
  show sv: "storeVariation ds' a = storeVariation ds a"
    by (simp add: storeVariation_def q) (simp add: ds'_def)
  have wt: "queryWeight ds' a = queryWeight ds a"
    by (simp add: queryWeight_def ds'_def)
  show "scanHistogram env' ds' a tree = scanHistogram env ds a tree"
    by (simp add: scanHistogram_def c v s q wt) (simp add: env'_def)
  have "queryScaleFactor env' ds' a = queryScaleFactor env ds a"
    by (simp add: queryScaleFactor_def c s q) (simp add: combinedScaleFactors_def env'_def ds'_def)
  then have "applyScaleFactors env' ds' a = applyScaleFactors env ds a"
    by (simp add: applyScaleFactors_def fun_eq_iff v Let_def cong: if_cong) (simp add: env'_def)
  then show "finishHistogram env' ds' a hist = finishHistogram env ds a hist"
    by (simp add: finishHistogram_def c v Let_def cong: if_cong) (simp add: env'_def ds'_def)
  have hs: "histogramStore ds' = histogramStore ds"
    by (simp add: ds'_def)
  have pk: "store_putHistogram st ds' = store_putHistogram st ds" for st
    by (simp add: fun_eq_iff store_putHistogram_def storeKey_def ds'_def split: option.splits)
  show "storeHistogram ds' a = storeHistogram ds a"
    unfolding storeHistogram_def hs sv v c pk ..
  show "store_getHistogram st ds' sv xv c = store_getHistogram st ds sv xv c"
    by (simp add: store_getHistogram_def storeKey_def ds'_def)
  show "histogramStore ds' = histogramStore ds"
    by (rule hs)
  show "tree_nonzero env' = tree_nonzero env"
    by (simp add: env'_def)
qed

lemma open_tree_sumOfWeights:
  assumes "sumOfWeights env ds = Inr s"
      and "sumOfWeights (env\<lparr>TFile_Open := opn\<rparr>) (ds\<lparr>sumOfWeights_attr := x\<rparr>) = Inr s'"
  shows "open_tree (env\<lparr>TFile_Open := opn\<rparr>) (ds\<lparr>sumOfWeights_attr := x\<rparr>) tn w
           = open_tree env ds tn w"
  by (simp add: open_tree_def assms applyPreselectionToTree_def Let_def)

lemma data_not_divided: "isData ds \<Longrightarrow> divideBySumOfWeights s ds h = h"
  by (simp add: divideBySumOfWeights_def)

lemma data_getHistogram_sumOfWeights:
  assumes "isData ds" and "sumOfWeights env ds = Inr s"
      and "sumOfWeights (env\<lparr>TFile_Open := opn\<rparr>) (ds\<lparr>sumOfWeights_attr := x\<rparr>) = Inr s'"
  shows "getHistogram (env\<lparr>TFile_Open := opn\<rparr>) (ds\<lparr>sumOfWeights_attr := x\<rparr>) a w
           = getHistogram env ds a w"
proof -
  have d: "isData (ds\<lparr>sumOfWeights_attr := x\<rparr>)"
    using assms(1) by simp
  have c: "createHistogram (env\<lparr>TFile_Open := opn\<rparr>) (ds\<lparr>sumOfWeights_attr := x\<rparr>) a w
          = createHistogram env ds a w"
    unfolding createHistogram_def open_tree_sumOfWeights [OF assms(2,3)] sumOfWeights_frame
      assms(2,3) sum.case data_not_divided [OF d] data_not_divided [OF assms(1)] ..
  show ?thesis
    unfolding getHistogram_def sumOfWeights_frame c ..
qed

lemma yieldHistArgs_luminosity:
  "yieldHistArgs env (y\<lparr>y_luminosity := l\<rparr>) = (yieldHistArgs env y)\<lparr>luminosity := l\<rparr>"
  by (simp add: yieldHistArgs_def)

lemma yieldHistArgs_TFile_Open:
  "yieldHistArgs (env\<lparr>TFile_Open := opn\<rparr>) y = yieldHistArgs env y"
  by (simp add: yieldHistArgs_def)

lemma data_finishHistogram_Some:
  "isData ds \<Longrightarrow>
   finishHistogram env ds a (Some h) =
     Some (applyBlinding env (queryVariable ds a) (queryCut ds a)
             (TH1_Scale
                (combinedScaleFactors ds
                   * totalScaleFactor env (querySystematicsSet ds a) (queryVariation ds a)
                       (queryCut ds a))
                ((if includeOverflowBins a then overflowIntoLastBins env else (\<lambda>x. x))
                   ((if forceBinning a then (\<lambda>x. Tools_forceBinning env x (queryVariable ds a))
                     else (\<lambda>x. x)) h))))"
  by (simp add: finishHistogram_def applyScaleFactors_def queryScaleFactor_def Let_def)

text \<open>
  C7, as the code has it. For a dataset that is data, the histogram and the yield do not
  depend on the luminosity; and they are the same for any two settings of the sum of
  weights (the attribute, and what opening the files gives) for which the property
  \<^verbatim>\<open>sumOfWeights\<close> returns a number. The histogram returned is the one found in the store,
  or else the one filled from the tree, after forced binning and the overflow tool (if
  asked for), scaled by the product of the scale factors of the dataset and of the
  systematics and by nothing else, and then blinded. The yield without \<^verbatim>\<open>ignoreWeights\<close>
  is the integral and error of the histogram returned for the yield variable.
\<close>

theorem data_without_luminosity_and_sumOfWeights:
  assumes "isData ds"
  shows "getHistogram env ds (a\<lparr>luminosity := l\<rparr>) w = getHistogram env ds a w
    \<and> getYield env ds (y\<lparr>y_luminosity := l\<rparr>) w = getYield env ds y w
    \<and> (sumOfWeights env ds = Inr s
         \<and> sumOfWeights (env\<lparr>TFile_Open := opn\<rparr>) (ds\<lparr>sumOfWeights_attr := x\<rparr>) = Inr s'
       \<longrightarrow> getHistogram (env\<lparr>TFile_Open := opn\<rparr>) (ds\<lparr>sumOfWeights_attr := x\<rparr>) a w
             = getHistogram env ds a w
           \<and> getYield (env\<lparr>TFile_Open := opn\<rparr>) (ds\<lparr>sumOfWeights_attr := x\<rparr>) y w
             = getYield env ds y w)
    \<and> (histogramStore ds = Some sid \<and> stores w sid (queryKey ds a) = Some h
         \<and> recreate a = False
       \<longrightarrow> getHistogram env ds a w
           = (Inr (Some
                (applyBlinding env (queryVariable ds a) (queryCut ds a)
                   (TH1_Scale
                      (combinedScaleFactors ds
                         * totalScaleFactor env (querySystematicsSet ds a) (queryVariation ds a)
                             (queryCut ds a))
                      ((if includeOverflowBins a then overflowIntoLastBins env else (\<lambda>x. x))
                         ((if forceBinning a
                           then (\<lambda>x. Tools_forceBinning env x (queryVariable ds a))
                           else (\<lambda>x. x)) h))))), w))
    \<and> ((recreate a \<or> (case histogramStore ds of None \<Rightarrow> True
                        | Some sid \<Rightarrow> stores w sid (queryKey ds a) = None))
         \<and> rawScan env ds a w = Some g \<and> sumOfWeights env ds = Inr s
       \<longrightarrow> fst (getHistogram env ds a w)
           = Inr (Some
                (applyBlinding env (queryVariable ds a) (queryCut ds a)
                   (TH1_Scale
                      (combinedScaleFactors ds
                         * totalScaleFactor env (querySystematicsSet ds a) (queryVariation ds a)
                             (queryCut ds a))
                      ((if includeOverflowBins a then overflowIntoLastBins env else (\<lambda>x. x))
                         ((if forceBinning a
                           then (\<lambda>x. Tools_forceBinning env x (queryVariable ds a))
                           else (\<lambda>x. x)) g))))))
    \<and> (ignoreWeights y = False
       \<longrightarrow> fst (getYield env ds y w)
           = (case fst (getHistogram env ds (yieldHistArgs env y) w) of
                Inl e \<Rightarrow> Inl e
              | Inr None \<Rightarrow> Inl AttributeError
              | Inr (Some hist) \<Rightarrow> Inr (TH1_IntegralAndError hist)))"
proof -
  have 1: "getYield env ds (y\<lparr>y_luminosity := l\<rparr>) w = getYield env ds y w"
    by (simp add: getYield_def yieldHistArgs_luminosity data_getHistogram_luminosity [OF assms]
        split: prod.splits sum.splits option.splits)
  have 2: "getYield (env\<lparr>TFile_Open := opn\<rparr>) (ds\<lparr>sumOfWeights_attr := x\<rparr>) y w
        = getYield env ds y w"
    if "sumOfWeights env ds = Inr s"
       "sumOfWeights (env\<lparr>TFile_Open := opn\<rparr>) (ds\<lparr>sumOfWeights_attr := x\<rparr>) = Inr s'"
    by (simp add: getYield_def yieldHistArgs_TFile_Open
        data_getHistogram_sumOfWeights [OF assms that])
  have 3: "getHistogram env ds a w
           = (Inr (Some
                (applyBlinding env (queryVariable ds a) (queryCut ds a)
                   (TH1_Scale
                      (combinedScaleFactors ds
                         * totalScaleFactor env (querySystematicsSet ds a) (queryVariation ds a)
                             (queryCut ds a))
                      ((if includeOverflowBins a then overflowIntoLastBins env else (\<lambda>x. x))
                         ((if forceBinning a
                           then (\<lambda>x. Tools_forceBinning env x (queryVariable ds a))
                           else (\<lambda>x. x)) h))))), w)"
    if "histogramStore ds = Some sid" "stores w sid (queryKey ds a) = Some h" "recreate a = False"
    using getHistogram_hit [OF that(1,2), of env] that(3)
    by (simp add: data_finishHistogram_Some [OF assms])
  have 4: "fst (getHistogram env ds a w)
           = Inr (Some
                (applyBlinding env (queryVariable ds a) (queryCut ds a)
                   (TH1_Scale
                      (combinedScaleFactors ds
                         * totalScaleFactor env (querySystematicsSet ds a) (queryVariation ds a)
                             (queryCut ds a))
                      ((if includeOverflowBins a then overflowIntoLastBins env else (\<lambda>x. x))
                         ((if forceBinning a
                           then (\<lambda>x. Tools_forceBinning env x (queryVariable ds a))
                           else (\<lambda>x. x)) g)))))"
    if "recreate a \<or> (case histogramStore ds of None \<Rightarrow> True
                       | Some sid \<Rightarrow> stores w sid (queryKey ds a) = None)"
       "rawScan env ds a w = Some g" "sumOfWeights env ds = Inr s"
    by (simp add: getHistogram_miss [OF that(1)] createHistogram_rawScan [OF that(2,3)]
        data_not_divided [OF assms] data_finishHistogram_Some [OF assms])
  have 5: "fst (getYield env ds y w)
           = (case fst (getHistogram env ds (yieldHistArgs env y) w) of
                Inl e \<Rightarrow> Inl e
              | Inr None \<Rightarrow> Inl AttributeError
              | Inr (Some hist) \<Rightarrow> Inr (TH1_IntegralAndError hist))"
    if "ignoreWeights y = False"
    using that
    by (simp add: getYield_def split: prod.splits sum.splits option.splits)
  show ?thesis
    using data_getHistogram_luminosity [OF assms] data_getHistogram_sumOfWeights [OF assms]
      1 2 3 4 5
    by blast
qed

theorem data_without_luminosity_and_sumOfWeights_witness:
  "getYield ex_env_rows (ex_data\<lparr>scaleFactors := [(''crossSection'', 4)]\<rparr>)
     (ex_yield\<lparr>y_luminosity := 2500\<rparr>) ex_world
     = getYield ex_env_rows (ex_data\<lparr>scaleFactors := [(''crossSection'', 4)]\<rparr>) ex_yield ex_world
   \<and> getYield (ex_env_rows\<lparr>TFile_Open := (\<lambda>fileName. ClosedFile)\<rparr>)
       (ex_data\<lparr>scaleFactors := [(''crossSection'', 4)], sumOfWeights_attr := 7\<rparr>) ex_yield ex_world
     = getYield ex_env_rows (ex_data\<lparr>scaleFactors := [(''crossSection'', 4)]\<rparr>) ex_yield ex_world
   \<and> fst (getHistogram ex_env_rows (ex_data\<lparr>scaleFactors := [(''crossSection'', 4)]\<rparr>)
            (yieldHistArgs ex_env_rows ex_yield) ex_world)
     = Inr (Some \<lparr>contents = [0, 6, 0], sumw2 = [0, 12, 0], entries = 3\<rparr>)
   \<and> fst (getYield ex_env_rows (ex_data\<lparr>scaleFactors := [(''crossSection'', 4)]\<rparr>) ex_yield
            ex_world)
     = Inr (6, sqrt 12)"
proof -
  let ?ds = "ex_data\<lparr>scaleFactors := [(''crossSection'', 4)]\<rparr>"
  let ?a = "yieldHistArgs ex_env_rows ex_yield"
  note t = data_without_luminosity_and_sumOfWeights
             [where ds = ?ds and env = ex_env_rows and l = 2500 and w = ex_world
                and y = ex_yield and a = ?a and opn = "\<lambda>fileName. ClosedFile" and x = 7
                and s = 12000 and s' = 7 and g = ex_rows]
  have d: "isData ?ds"
    by (simp add: example_defs)
  have sw: "sumOfWeights ex_env_rows ?ds = Inr 12000
      \<and> sumOfWeights (ex_env_rows\<lparr>TFile_Open := (\<lambda>fileName. ClosedFile)\<rparr>)
          (?ds\<lparr>sumOfWeights_attr := 7\<rparr>) = Inr 7"
    by (simp add: example_defs sumOfWeights_def)
  have miss: "(recreate ?a \<or> (case histogramStore ?ds of None \<Rightarrow> True
                 | Some sid \<Rightarrow> stores ex_world sid (queryKey ?ds ?a) = None))
      \<and> rawScan ex_env_rows ?ds ?a ex_world = Some ex_rows
      \<and> sumOfWeights ex_env_rows ?ds = Inr 12000"
    by (simp add: example_defs query_defs yieldHistArgs_def)
  have e: "applyBlinding ex_env_rows (queryVariable ?ds ?a) (queryCut ?ds ?a)
             (TH1_Scale
                (combinedScaleFactors ?ds
                   * totalScaleFactor ex_env_rows (querySystematicsSet ?ds ?a)
                       (queryVariation ?ds ?a) (queryCut ?ds ?a))
                ((if includeOverflowBins ?a then overflowIntoLastBins ex_env_rows else (\<lambda>x. x))
                   ((if forceBinning ?a
                     then (\<lambda>x. Tools_forceBinning ex_env_rows x (queryVariable ?ds ?a))
                     else (\<lambda>x. x)) ex_rows)))
           = \<lparr>contents = [0, 6, 0], sumw2 = [0, 12, 0], entries = 3\<rparr>"
    by (simp add: example_defs yieldHistArgs_def combinedScaleFactors_def TH1_Scale_def)
  have i: "ignoreWeights ex_yield = False"
    by (simp add: example_defs)
  from t [OF d] sw miss i
  have "getYield ex_env_rows ?ds (ex_yield\<lparr>y_luminosity := 2500\<rparr>) ex_world
          = getYield ex_env_rows ?ds ex_yield ex_world"
    and "getYield (ex_env_rows\<lparr>TFile_Open := (\<lambda>fileName. ClosedFile)\<rparr>)
           (?ds\<lparr>sumOfWeights_attr := 7\<rparr>) ex_yield ex_world
          = getYield ex_env_rows ?ds ex_yield ex_world"
    and h: "fst (getHistogram ex_env_rows ?ds ?a ex_world)
          = Inr (Some \<lparr>contents = [0, 6, 0], sumw2 = [0, 12, 0], entries = 3\<rparr>)"
    and y: "fst (getYield ex_env_rows ?ds ex_yield ex_world)
           = (case fst (getHistogram ex_env_rows ?ds ?a ex_world) of
                Inl e \<Rightarrow> Inl e
              | Inr None \<Rightarrow> Inl AttributeError
              | Inr (Some hist) \<Rightarrow> Inr (TH1_IntegralAndError hist))"
    unfolding e [symmetric] by blast+
  moreover have "fst (getYield ex_env_rows ?ds ex_yield ex_world) = Inr (6, sqrt 12)"
    unfolding y h by (simp add: TH1_IntegralAndError_def)
  ultimately show ?thesis
    by simp
qed

text \<open>
  C7, as the specification states it, fails: the tree draw of a data sample read with a
  weight selects three rows, and the yield is their sum of weights, one and a half.
\<close>

theorem data_yield_not_row_count:
  "map_option entries (rawScan ex_env_rows ex_data (yieldHistArgs ex_env_rows ex_yield) ex_world)
     = Some 3
   \<and> fst (getYield ex_env_rows ex_data (ex_yield\<lparr>y_luminosity := 2500\<rparr>) ex_world)
     = Inr (3 / 2, sqrt (3 / 4))"
  by (simp add: example_defs query_defs getYield_def yieldHistArgs_def)

text \<open>
  A query on data still reads the property \<^verbatim>\<open>sumOfWeights\<close>: when the attribute is not set
  and the file of the dataset cannot be opened, the exception of the calculator leaves
  \<^verbatim>\<open>getHistogram\<close> and \<^verbatim>\<open>getYield\<close>.
\<close>

lemma data_query_raises_without_file:
  "fst (getHistogram ex_env_nofile (ex_data\<lparr>sumOfWeights_attr := 0\<rparr>) ex_args ex_world)
     = Inl UnboundLocalError
   \<and> fst (getYield ex_env_nofile (ex_data\<lparr>sumOfWeights_attr := 0\<rparr>) ex_yield ex_world)
     = Inl UnboundLocalError"
  by (simp add: example_defs ex_env_nofile_def query_defs getYield_def yieldHistArgs_def)

subsection \<open>The yield\<close>







subsection \<open>A source that cannot be opened\<close>

text \<open>
  C9 at an input where no file of the dataset is found and the chain tests false, and at
  one where the tree draw returns a null histogram: the histogram query returns no
  histogram, and the yield query raises \<^verbatim>\<open>AttributeError\<close>.
\<close>

theorem yield_raises_without_source:
  "getHistogram ex_env_missing ex_mc ex_args ex_world = (Inr None, ex_world\<lparr>warnings := 1\<rparr>)
   \<and> getYield ex_env_missing ex_mc ex_yield ex_world
       = (Inl AttributeError, ex_world\<lparr>warnings := 1\<rparr>)
   \<and> getHistogram ex_env_null ex_mc ex_args ex_world = (Inr None, ex_world\<lparr>draws := 1\<rparr>)
   \<and> getYield ex_env_null ex_mc ex_yield ex_world = (Inl AttributeError, ex_world\<lparr>draws := 1\<rparr>)"
  by (simp add: example_defs query_defs getYield_def yieldHistArgs_def)

subsection \<open>Variations of systematics that are not registered\<close>

lemma getHistogram_demotes:
  "systematicVariation a = Some v \<Longrightarrow> systematics v = Some s \<Longrightarrow>
   s \<notin> querySystematicsSet ds a \<Longrightarrow> queryVariation ds a = nominalSystematics ds"
  by (simp add: queryVariation_def resolveVariation_def)

text \<open>
  C4 at an input where the systematics of the variation is in no set: the histogram
  query takes the nominal variation, the value query reads the tree of the variation
  given (the values 2 of the tree \<^verbatim>\<open>JES_UP\<close>, not the values 1 of the nominal tree).
\<close>

theorem getValues_keeps_unregistered_variation:
  "queryVariation ex_mc (ex_args\<lparr>systematicVariation := Some ex_up\<rparr>) = nominalSystematics ex_mc
   \<and> fst (getValues ex_env ex_mc ''mass'' ex_eta [] 1 (Some ex_up) None ex_world)
       = Inr (Some ([2], [1]))
   \<and> fst (getValues ex_env ex_mc ''mass'' ex_eta [] 1 None None ex_world)
       = Inr (Some ([1], [1]))"
  by (simp add: example_defs query_defs getValues_def cut_mul_def)

subsection \<open>The histogram of a physics process\<close>

lemma present_simps:
  "present [] = []"
  "present (None # rs) = present rs"
  "present (Some h # rs) = h # present rs"
  by (simp_all add: present_def)

lemma mergeDaughters_daughterHistograms:
  "mergeDaughters env daughters a histogram w =
     (case fst (daughterHistograms env daughters a w) of
        Inl e \<Rightarrow> Inl e
      | Inr rs \<Rightarrow>
          Inr (case histogram of
                 None \<Rightarrow> sumHistograms (present rs)
               | Some g \<Rightarrow> Some (foldl TH1_Add g (present rs))),
      snd (daughterHistograms env daughters a w))"
proof (induction daughters arbitrary: histogram w)
  case Nil
  then show ?case by (simp add: present_simps split: option.splits)
next
  case (Cons d daughters)
  obtain r w1 where r: "getHistogramN env d a w = (r, w1)"
    by (cases "getHistogramN env d a w")
  show ?case
  proof (cases r)
    case (Inl e)
    then show ?thesis using r by simp
  next
    case (Inr x)
    show ?thesis
    proof (cases x)
      case None
      let ?w = "w1\<lparr>warnings := warnings w1 + 1\<rparr>"
      obtain q w2 where q: "daughterHistograms env daughters a ?w = (q, w2)"
        by (cases "daughterHistograms env daughters a ?w")
      have m: "mergeDaughters env (d # daughters) a histogram w
                 = mergeDaughters env daughters a histogram ?w"
        using r Inr None by simp
      have d: "daughterHistograms env (d # daughters) a w
                 = (case q of Inl e \<Rightarrow> Inl e | Inr rs \<Rightarrow> Inr (None # rs), w2)"
        using r Inr None q by (simp split: sum.splits)
      show ?thesis
        unfolding m Cons.IH [of histogram ?w] d q
        by (cases q; cases histogram) (simp_all add: present_simps)
    next
      case (Some h)
      let ?acc = "case histogram of None \<Rightarrow> Some h | Some g \<Rightarrow> Some (TH1_Add g h)"
      obtain q w2 where q: "daughterHistograms env daughters a w1 = (q, w2)"
        by (cases "daughterHistograms env daughters a w1")
      have m: "mergeDaughters env (d # daughters) a histogram w
                 = mergeDaughters env daughters a ?acc w1"
        using r Inr Some by simp
      have d: "daughterHistograms env (d # daughters) a w
                 = (case q of Inl e \<Rightarrow> Inl e | Inr rs \<Rightarrow> Inr (Some h # rs), w2)"
        using r Inr Some q by (simp split: sum.splits)
      show ?thesis
        unfolding m Cons.IH [of ?acc w1] d q
        by (cases q; cases histogram) (simp_all add: present_simps)
    qed
  qed
qed

lemma TH1_Add_bins:
  assumes "length (contents h) = n" "length (sumw2 h) = n"
      and "length (contents g) = n" "length (sumw2 g) = n"
  shows "length (contents (TH1_Add h g)) = n"
    and "length (sumw2 (TH1_Add h g)) = n"
    and "i < n \<Longrightarrow> contents (TH1_Add h g) ! i = contents h ! i + contents g ! i"
  using assms by (simp_all add: TH1_Add_def)

lemma foldl_TH1_Add_bins:
  assumes "\<forall>g \<in> set hs. length (contents g) = n \<and> length (sumw2 g) = n"
      and "length (contents h) = n" "length (sumw2 h) = n" and "i < n"
  shows "contents (foldl TH1_Add h hs) ! i = contents h ! i + (\<Sum>g\<leftarrow>hs. contents g ! i)"
  using assms
proof (induction hs arbitrary: h)
  case Nil
  then show ?case by simp
next
  case (Cons g hs)
  have g: "length (contents g) = n" "length (sumw2 g) = n"
    using Cons.prems(1) by simp_all
  have "contents (foldl TH1_Add (TH1_Add h g) hs) ! i
          = contents (TH1_Add h g) ! i + (\<Sum>g\<leftarrow>hs. contents g ! i)"
    using Cons.prems TH1_Add_bins(1,2) [OF Cons.prems(2,3) g]
    by (intro Cons.IH) simp_all
  then show ?case
    using TH1_Add_bins(3) [OF Cons.prems(2,3) g Cons.prems(4)] by simp
qed

lemma foldl_TH1_Add_length:
  assumes "\<forall>g \<in> set hs. length (contents g) = n \<and> length (sumw2 g) = n"
      and "length (contents h) = n" "length (sumw2 h) = n"
  shows "length (contents (foldl TH1_Add h hs)) = n \<and> length (sumw2 (foldl TH1_Add h hs)) = n"
  using assms by (induction hs arbitrary: h) (simp_all add: TH1_Add_bins)

lemma sumHistograms_bins:
  assumes "\<forall>g \<in> set hs. length (contents g) = n \<and> length (sumw2 g) = n"
      and "sumHistograms hs = Some m" and "i < n"
  shows "contents m ! i = (\<Sum>g\<leftarrow>hs. contents g ! i)"
proof (cases hs)
  case Nil
  then show ?thesis using assms(2) by simp
next
  case (Cons h hs')
  then have "m = foldl TH1_Add h hs'"
    using assms(2) by simp
  then show ?thesis
    using foldl_TH1_Add_bins [of hs' n h i] assms(1,3) Cons by simp
qed

text \<open>
  C8. The histogram of a physics process is the bin-wise sum, in their order, of the
  histograms its daughters return, scaled once by the combined scale factors of the
  process; daughters that return no histogram are left out of the sum (a warning is
  logged for each), and the query returns nothing only when no daughter returns a
  histogram; the exception of a daughter is the exception of the query. When the
  histograms of the daughters have the same number of bins, every bin of the result is
  the scale factor of the process times the sum of that bin over the histograms of the
  daughters.
\<close>

theorem process_histogram_is_scaled_sum:
  "getHistogramN env (PhysicsProcess p daughters) a w
     = (case fst (daughterHistograms env daughters (daughterArgs p a) w) of
          Inl e \<Rightarrow> Inl e
        | Inr rs \<Rightarrow>
            Inr (map_option (TH1_Scale (combinedScaleFactors p)) (sumHistograms (present rs))),
        snd (daughterHistograms env daughters (daughterArgs p a) w))
   \<and> (fst (daughterHistograms env daughters (daughterArgs p a) w) = Inr rs
       \<and> (\<forall>h \<in> set (present rs). length (contents h) = n \<and> length (sumw2 h) = n)
       \<and> fst (getHistogramN env (PhysicsProcess p daughters) a w) = Inr (Some m) \<and> i < n
       \<longrightarrow> contents m ! i
           = combinedScaleFactors p * (\<Sum>h\<leftarrow>present rs. contents h ! i))"
proof -
  let ?R = "daughterHistograms env daughters (daughterArgs p a) w"
  have 1: "getHistogramN env (PhysicsProcess p daughters) a w
     = (case fst ?R of
          Inl e \<Rightarrow> Inl e
        | Inr rs \<Rightarrow>
            Inr (map_option (TH1_Scale (combinedScaleFactors p)) (sumHistograms (present rs))),
        snd ?R)"
    by (simp add: Let_def mergeDaughters_daughterHistograms daughterArgs_def split: sum.splits)
  have 2: "contents m ! i = combinedScaleFactors p * (\<Sum>h\<leftarrow>present rs. contents h ! i)"
    if r: "fst ?R = Inr rs"
      and b: "\<forall>h \<in> set (present rs). length (contents h) = n \<and> length (sumw2 h) = n"
      and m: "fst (getHistogramN env (PhysicsProcess p daughters) a w) = Inr (Some m)"
      and i: "i < n"
  proof -
    have e: "fst (getHistogramN env (PhysicsProcess p daughters) a w)
            = Inr (map_option (TH1_Scale (combinedScaleFactors p)) (sumHistograms (present rs)))"
      unfolding 1 by (simp add: r)
    have "map_option (TH1_Scale (combinedScaleFactors p)) (sumHistograms (present rs)) = Some m"
      using m unfolding e by simp
    then obtain m0 where m0: "sumHistograms (present rs) = Some m0"
      and mm: "m = TH1_Scale (combinedScaleFactors p) m0"
      by (cases "sumHistograms (present rs)") auto
    have l: "length (contents m0) = n"
    proof (cases "present rs")
      case Nil
      then show ?thesis using m0 by simp
    next
      case (Cons h hs)
      then have "m0 = foldl TH1_Add h hs"
        and "\<forall>g \<in> set hs. length (contents g) = n \<and> length (sumw2 g) = n"
        and "length (contents h) = n" and "length (sumw2 h) = n"
        using m0 b by simp_all
      then show ?thesis
        using foldl_TH1_Add_length [of hs n h] by simp
    qed
    have "contents m0 ! i = (\<Sum>h\<leftarrow>present rs. contents h ! i)"
      using sumHistograms_bins [OF b m0 i] .
    then show ?thesis
      using l i by (simp add: mm TH1_Scale_def)
  qed
  show ?thesis
    using 1 2 by blast
qed

lemma ex_daughters:
  "daughterHistograms ex_env_partial
     [DatasetNode (ex_mc\<lparr>name := ''lost'', fileNames := []\<rparr>), DatasetNode ex_mc,
      DatasetNode (ex_mc\<lparr>name := ''mc2''\<rparr>)]
     (daughterArgs (PhysicsProcess_init ''bkg'' ''Backgrounds'' 3 False) ex_args) ex_world
   = (Inr [None, Some \<lparr>contents = [0, 40, 0], sumw2 = [0, 800, 0], entries = 2\<rparr>,
           Some \<lparr>contents = [0, 40, 0], sumw2 = [0, 800, 0], entries = 2\<rparr>],
      ex_world\<lparr>draws := 2, warnings := 2\<rparr>)"
  by (simp add: example_defs query_defs ex_env_partial_def PhysicsProcess_init_def daughterArgs_def
      Let_def)

theorem process_histogram_is_scaled_sum_witness:
  "getHistogramN ex_env_partial ex_process ex_args ex_world
     = (Inr (Some \<lparr>contents = [0, 240, 0], sumw2 = [0, 14400, 0], entries = 4\<rparr>),
        ex_world\<lparr>draws := 2, warnings := 2\<rparr>)
   \<and> contents \<lparr>contents = [0, 240, 0], sumw2 = [0, 14400, 0], entries = 4\<rparr> ! 1
     = combinedScaleFactors (PhysicsProcess_init ''bkg'' ''Backgrounds'' 3 False)
       * (\<Sum>h\<leftarrow>[\<lparr>contents = [0, 40, 0], sumw2 = [0, 800, 0], entries = 2\<rparr>,
                \<lparr>contents = [0, 40, 0], sumw2 = [0, 800, 0], entries = 2\<rparr>]. contents h ! 1)"
proof -
  let ?p = "PhysicsProcess_init ''bkg'' ''Backgrounds'' 3 False"
  let ?h = "\<lparr>contents = [0, 40, 0], sumw2 = [0, 800, 0], entries = 2::real\<rparr>"
  let ?m = "\<lparr>contents = [0, 240, 0], sumw2 = [0, 14400, 0], entries = 4::real\<rparr>"
  note t = process_histogram_is_scaled_sum
            [where env = ex_env_partial and p = ?p
               and daughters = "[DatasetNode (ex_mc\<lparr>name := ''lost'', fileNames := []\<rparr>),
                                 DatasetNode ex_mc, DatasetNode (ex_mc\<lparr>name := ''mc2''\<rparr>)]"
               and a = ex_args and w = ex_world and rs = "[None, Some ?h, Some ?h]"
               and n = 3 and m = ?m and i = 1]
  have "getHistogramN ex_env_partial ex_process ex_args ex_world
     = (Inr (map_option (TH1_Scale (combinedScaleFactors ?p))
          (sumHistograms (present [None, Some ?h, Some ?h]))),
        ex_world\<lparr>draws := 2, warnings := 2\<rparr>)"
    using t unfolding ex_daughters ex_process_def by simp
  then have 1: "getHistogramN ex_env_partial ex_process ex_args ex_world
     = (Inr (Some ?m), ex_world\<lparr>draws := 2, warnings := 2\<rparr>)"
    by (simp add: present_simps TH1_Add_def TH1_Scale_def combinedScaleFactors_def
        PhysicsProcess_init_def)
  have 2: "\<forall>h \<in> set (present [None, Some ?h, Some ?h]).
             length (contents h) = 3 \<and> length (sumw2 h) = 3"
    by (simp add: present_simps)
  have "contents ?m ! 1 = combinedScaleFactors ?p * (\<Sum>h\<leftarrow>present [None, Some ?h, Some ?h]. contents h ! 1)"
    using t 1 2 unfolding ex_daughters ex_process_def by simp
  with 1 show ?thesis
    by (simp add: present_simps)
qed

subsection \<open>Copies of a dataset\<close>

lemma alloc_mk:
  "alloc c \<lparr>objects = ob, containers = cs, fresh = n, DATASETS = d, registry_warnings = k\<rparr>
     = (n, \<lparr>objects = ob, containers = cs(n := Some c), fresh = n + 1, DATASETS = d,
            registry_warnings = k\<rparr>)"
  by (simp add: alloc_def)

lemma copy_container_mk:
  "copy_container r \<lparr>objects = ob, containers = cs, fresh = n, DATASETS = d, registry_warnings = k\<rparr>
     = (n, \<lparr>objects = ob,
            containers = cs(n := Some (case cs r of None \<Rightarrow> PyList [] | Some c \<Rightarrow> c)),
            fresh = n + 1, DATASETS = d, registry_warnings = k\<rparr>)"
  by (simp add: copy_container_def alloc_def)

lemma dict_setitem_mk:
  "dict_setitem r key v \<lparr>objects = ob, containers = cs, fresh = n, DATASETS = d, registry_warnings = k\<rparr>
     = (case cs r of
          Some (PyDict kvs) \<Rightarrow>
            \<lparr>objects = ob, containers = cs(r := Some (PyDict (AList.update key v kvs))), fresh = n,
             DATASETS = d, registry_warnings = k\<rparr>
        | _ \<Rightarrow> \<lparr>objects = ob, containers = cs, fresh = n, DATASETS = d, registry_warnings = k\<rparr>)"
  by (simp add: dict_setitem_def split: option.splits Container.splits)

lemma register_mk:
  "register self newName oldName
     \<lparr>objects = ob, containers = cs, fresh = n, DATASETS = d, registry_warnings = k\<rparr>
   = (let d1 = (if oldName = [] then d else if d oldName = Some self then d(oldName := None) else d)
      in \<lparr>objects = ob, containers = cs, fresh = n, DATASETS = d1(newName := Some self),
          registry_warnings =
            (case d1 newName of None \<Rightarrow> k | Some other \<Rightarrow> if other = self then k else k + 1)\<rparr>)"
  by (simp add: register_def Let_def split: option.splits)

lemma set_name_mk:
  "set_name self arg \<lparr>objects = ob, containers = cs, fresh = n, DATASETS = d, registry_warnings = k\<rparr>
   = (case ob self of
        None \<Rightarrow> \<lparr>objects = ob, containers = cs, fresh = n, DATASETS = d, registry_warnings = k\<rparr>
      | Some x \<Rightarrow>
          (case arg of
             SameObject \<Rightarrow>
               \<lparr>objects = ob, containers = cs, fresh = n, DATASETS = d, registry_warnings = k\<rparr>
           | NewString nm \<Rightarrow>
               register self nm (at_name x)
                 \<lparr>objects = ob(self := Some (x\<lparr>at_name := nm\<rparr>)), containers = cs, fresh = n,
                  DATASETS = d, registry_warnings = k\<rparr>))"
  by (simp add: set_name_def Let_def split: option.splits NameArg.splits)

lemma set_title_mk:
  "set_title self ttl \<lparr>objects = ob, containers = cs, fresh = n, DATASETS = d, registry_warnings = k\<rparr>
   = (case ob self of
        None \<Rightarrow> \<lparr>objects = ob, containers = cs, fresh = n, DATASETS = d, registry_warnings = k\<rparr>
      | Some x \<Rightarrow>
          \<lparr>objects = ob(self := Some (x\<lparr>at_title := ttl\<rparr>)), containers = cs, fresh = n,
           DATASETS = d, registry_warnings = k\<rparr>)"
  by (simp add: set_title_def split: option.splits)

lemma list_append_mk:
  "list_append r v \<lparr>objects = ob, containers = cs, fresh = n, DATASETS = d, registry_warnings = k\<rparr>
     = (case cs r of
          Some (PyList xs) \<Rightarrow>
            \<lparr>objects = ob, containers = cs(r := Some (PyList (xs @ [v]))), fresh = n,
             DATASETS = d, registry_warnings = k\<rparr>
        | _ \<Rightarrow> \<lparr>objects = ob, containers = cs, fresh = n, DATASETS = d, registry_warnings = k\<rparr>)"
  by (simp add: list_append_def split: option.splits Container.splits)

lemmas memory_steps = alloc_mk copy_container_mk dict_setitem_mk list_append_mk register_mk
  set_name_mk set_title_mk

lemmas memory_defs = ex_mem1_def ex_mem2_def Dataset_new_def copy_def empty_memory_def
  attribute_def set_item_def append_item_def memory_steps

text \<open>
  C10 at a dataset and its copy: the dictionaries \<^verbatim>\<open>replaceVariables\<close>,
  \<^verbatim>\<open>treeEntryLists\<close> and \<^verbatim>\<open>scaleFactorsUncertainty\<close> of the copy are those of the original,
  so an entry written through the copy is read through the original; the dictionary
  \<^verbatim>\<open>scaleFactors\<close> and the list \<^verbatim>\<open>ignoreCuts\<close> are copied, and writing to the copy's
  leaves the original's as it was.
\<close>

theorem copy_shares_uncopied_dictionaries:
  "attribute at_replaceVariables (fst ex_mem1) (snd ex_mem2) = Some (PyDict [])
   \<and> attribute at_replaceVariables (fst ex_mem1)
       (set_item at_replaceVariables (fst ex_mem2) ''mass'' (VStr ''mass_corr'') (snd ex_mem2))
     = Some (PyDict [(''mass'', VStr ''mass_corr'')])
   \<and> attribute at_treeEntryLists (fst ex_mem1)
       (set_item at_treeEntryLists (fst ex_mem2) ''NOMINAL'' (VStr ''n > 0'') (snd ex_mem2))
     = Some (PyDict [(''NOMINAL'', VStr ''n > 0'')])
   \<and> attribute at_scaleFactorsUncertainty (fst ex_mem1)
       (set_item at_scaleFactorsUncertainty (fst ex_mem2) ''kFactor'' (VNum (1 / 10)) (snd ex_mem2))
     = Some (PyDict [(''kFactor'', VNum (1 / 10))])
   \<and> attribute at_scaleFactors (fst ex_mem1)
       (set_item at_scaleFactors (fst ex_mem2) ''kFactor'' (VNum 2) (snd ex_mem2))
     = Some (PyDict [(''crossSection'', VNum 5), (''kFactor'', VNum 1)])
   \<and> attribute at_scaleFactors (fst ex_mem2)
       (set_item at_scaleFactors (fst ex_mem2) ''kFactor'' (VNum 2) (snd ex_mem2))
     = Some (PyDict [(''crossSection'', VNum 5), (''kFactor'', VNum 2)])
   \<and> attribute at_ignoreCuts (fst ex_mem1)
       (append_item at_ignoreCuts (fst ex_mem2) (VCut ex_pt) (snd ex_mem2))
     = Some (PyList [])
   \<and> attribute at_ignoreCuts (fst ex_mem2)
       (append_item at_ignoreCuts (fst ex_mem2) (VCut ex_pt) (snd ex_mem2))
     = Some (PyList [VCut ex_pt])"
  by (simp add: memory_defs Let_def)

end
